theory Spec2Isabelle
  imports Main "HOL-Library.Sublist" "HOL-Library.Char_ord" "HOL-Library.List_Lexorder"
begin

section \<open>Go strings\<close>

text \<open>
  A Go \<^verbatim>\<open>string\<close> is a sequence of bytes; it is modelled as \<^typ>\<open>string\<close>, a list of
  8-bit characters. The functions of this section are the functions of Go's standard
  packages \<^verbatim>\<open>strings\<close> and \<^verbatim>\<open>path\<close> that the two programs call, written after the
  documented behaviour of the standard library. \<^verbatim>\<open>Index\<close> returns \<open>None\<close> where Go returns
  \<open>-1\<close>.
\<close>

fun HasPrefix :: "string \<Rightarrow> string \<Rightarrow> bool" where
  "HasPrefix s [] = True"
| "HasPrefix [] (p # ps) = False"
| "HasPrefix (c # cs) (p # ps) = (c = p \<and> HasPrefix cs ps)"

fun Index :: "string \<Rightarrow> string \<Rightarrow> nat option" where
  "Index [] substr = (if substr = [] then Some 0 else None)"
| "Index (c # cs) substr =
     (if HasPrefix (c # cs) substr then Some 0 else map_option Suc (Index cs substr))"

definition Contains :: "string \<Rightarrow> string \<Rightarrow> bool" where
  "Contains s substr = (Index s substr \<noteq> None)"

definition ContainsAny :: "string \<Rightarrow> string \<Rightarrow> bool" where
  "ContainsAny s chars = list_ex (\<lambda>c. c \<in> set chars) s"

definition TrimPrefix :: "string \<Rightarrow> string \<Rightarrow> string" where
  "TrimPrefix s p = (if HasPrefix s p then drop (length p) s else s)"

definition isSpace :: "char \<Rightarrow> bool" where
  "isSpace c = (c \<in> set [CHR 0x09, CHR 0x0A, CHR 0x0B, CHR 0x0C, CHR 0x0D, CHR '' ''])"

definition TrimSpace :: "string \<Rightarrow> string" where
  "TrimSpace s = rev (dropWhile isSpace (rev (dropWhile isSpace s)))"

definition ToLowerByte :: "char \<Rightarrow> char" where
  "ToLowerByte c =
     (if CHR ''A'' \<le> c \<and> c \<le> CHR ''Z'' then char_of (of_char c + (32::nat)) else c)"

definition ToLower :: "string \<Rightarrow> string" where
  "ToLower s = map ToLowerByte s"

text \<open>
  \<open>cutAt sep s\<close> is the text before and after the first occurrence of the byte \<open>sep\<close>
  (what \<^verbatim>\<open>strings.IndexRune\<close> followed by the two slices computes), \<open>None\<close> when \<open>sep\<close>
  does not occur.
\<close>

fun cutAt :: "char \<Rightarrow> string \<Rightarrow> (string \<times> string) option" where
  "cutAt sep [] = None"
| "cutAt sep (c # cs) =
     (if c = sep then Some ([], cs)
      else (case cutAt sep cs of None \<Rightarrow> None | Some (a, b) \<Rightarrow> Some (c # a, b)))"

fun Split :: "char \<Rightarrow> string \<Rightarrow> string list" where
  "Split sep [] = [[]]"
| "Split sep (c # cs) =
     (if c = sep then [] # Split sep cs
      else (case Split sep cs of [] \<Rightarrow> [[c]] | p # ps \<Rightarrow> (c # p) # ps))"

fun SplitN :: "char \<Rightarrow> nat \<Rightarrow> string \<Rightarrow> string list" where
  "SplitN sep 0 s = []"
| "SplitN sep (Suc 0) s = [s]"
| "SplitN sep (Suc (Suc n)) [] = [[]]"
| "SplitN sep (Suc (Suc n)) (c # cs) =
     (if c = sep then [] # SplitN sep (Suc n) cs
      else (case SplitN sep (Suc (Suc n)) cs of [] \<Rightarrow> [[c]] | p # ps \<Rightarrow> (c # p) # ps))"

fun Join :: "string list \<Rightarrow> string \<Rightarrow> string" where
  "Join [] sep = []"
| "Join [x] sep = x"
| "Join (x # y # ys) sep = x @ sep @ Join (y # ys) sep"

text \<open>
  \<^verbatim>\<open>path.Ext\<close>: the suffix beginning at the final dot in the final slash-separated element
  of the path, empty if there is no dot. The scan runs from the last byte backwards and
  stops at a slash; \<open>extScan\<close> is that loop on the reversed path, \<open>acc\<close> the bytes passed.
\<close>

fun extScan :: "string \<Rightarrow> string \<Rightarrow> string" where
  "extScan [] acc = []"
| "extScan (c # cs) acc =
     (if c = CHR ''/'' then []
      else if c = CHR ''.'' then c # acc
      else extScan cs (c # acc))"

definition Ext :: "string \<Rightarrow> string" where
  "Ext p = extScan (rev p) []"

text \<open>
  \<^verbatim>\<open>path.Base\<close>: the last element of the path. Trailing slashes are removed first; the
  empty path gives \<^verbatim>\<open>"."\<close>, a path of slashes only gives \<^verbatim>\<open>"/"\<close>.
\<close>

definition Base :: "string \<Rightarrow> string" where
  "Base p =
     (if p = [] then ''.''
      else (let q = rev (dropWhile (\<lambda>c. c = CHR ''/'') (rev p));
                b = rev (takeWhile (\<lambda>c. c \<noteq> CHR ''/'') (rev q))
            in if b = [] then ''/'' else b))"

section \<open>Semantic versions\<close>

text \<open>
  Modelled from the spec: the package \<^verbatim>\<open>github.com/blang/semver\<close>, which
  \<^verbatim>\<open>latestGitHubRelease\<close> and \<^verbatim>\<open>latestSeleniumRelease\<close> import, is not under \<^verbatim>\<open>src/\<close>. The spec
  says of it: "version comparison uses tolerant semantic-version parsing (accepts versions
  missing some components)". The definitions below follow that package: a \<^verbatim>\<open>Version\<close> is
  major, minor, patch, a list of pre-release identifiers and build metadata;
  \<^verbatim>\<open>Compare\<close> orders by major, minor, patch, then a version without pre-release above one
  with, then the pre-release identifiers from the left (a numeric identifier below an
  alphanumeric one, a proper prefix below its extensions); build metadata is ignored.
  \<^verbatim>\<open>ParseTolerant\<close> trims white space and one leading \<^verbatim>\<open>v\<close>, pads a version of one or two
  components (that has no pre-release or build part) with \<^verbatim>\<open>.0\<close>, and hands over to
  \<^verbatim>\<open>Parse\<close>. A parse error is \<open>None\<close>: both callers only test \<^verbatim>\<open>err != nil\<close>.

  The resolvers below take the parser as a parameter \<open>parse\<close>, so that their general
  properties hold of any parser; \<open>ParseTolerant\<close> is used where a concrete tag or object
  name is evaluated.
\<close>

datatype PRVersion = PRNum nat | PRAlpha string

record Version =
  Major :: nat
  Minor :: nat
  Patch :: nat
  Pre :: "PRVersion list"
  Build :: "string list"

definition zeroVersion :: Version where
  "zeroVersion = \<lparr>Major = 0, Minor = 0, Patch = 0, Pre = [], Build = []\<rparr>"

fun PRCompare :: "PRVersion \<Rightarrow> PRVersion \<Rightarrow> int" where
  "PRCompare (PRNum a) (PRAlpha b) = -1"
| "PRCompare (PRAlpha a) (PRNum b) = 1"
| "PRCompare (PRNum a) (PRNum b) = (if a = b then 0 else if a > b then 1 else -1)"
| "PRCompare (PRAlpha a) (PRAlpha b) = (if a = b then 0 else if a > b then 1 else -1)"

fun comparePre :: "PRVersion list \<Rightarrow> PRVersion list \<Rightarrow> int" where
  "comparePre [] [] = 0"
| "comparePre [] (y # ys) = -1"
| "comparePre (x # xs) [] = 1"
| "comparePre (x # xs) (y # ys) =
     (if PRCompare x y = 0 then comparePre xs ys
      else if PRCompare x y = 1 then 1 else -1)"

definition Compare :: "Version \<Rightarrow> Version \<Rightarrow> int" where
  "Compare v w =
     (if Major v \<noteq> Major w then (if Major v > Major w then 1 else -1)
      else if Minor v \<noteq> Minor w then (if Minor v > Minor w then 1 else -1)
      else if Patch v \<noteq> Patch w then (if Patch v > Patch w then 1 else -1)
      else if Pre v = [] \<and> Pre w = [] then 0
      else if Pre v = [] \<and> Pre w \<noteq> [] then 1
      else if Pre v \<noteq> [] \<and> Pre w = [] then -1
      else comparePre (Pre v) (Pre w))"

definition GT :: "Version \<Rightarrow> Version \<Rightarrow> bool" where
  "GT v w = (Compare v w = 1)"

definition numbers :: string where
  "numbers = ''0123456789''"

definition alphas :: string where
  "alphas = ''abcdefghijklmnopqrstuvwxyzABCDEFGHIJKLMNOPQRSTUVWXYZ-''"

definition alphanum :: string where
  "alphanum = alphas @ numbers"

definition containsOnly :: "string \<Rightarrow> string \<Rightarrow> bool" where
  "containsOnly s cs = list_all (\<lambda>c. c \<in> set cs) s"

definition hasLeadingZeroes :: "string \<Rightarrow> bool" where
  "hasLeadingZeroes s = (case s of c # _ # _ \<Rightarrow> c = CHR ''0'' | _ \<Rightarrow> False)"

definition decimal :: "string \<Rightarrow> nat" where
  "decimal s = foldl (\<lambda>n c. 10 * n + (of_char c - 48)) 0 s"

text \<open>\<^verbatim>\<open>strconv.ParseUint(s, 10, 64)\<close>: digits only, not empty, below \<open>2^64\<close>.\<close>

definition ParseUint :: "string \<Rightarrow> nat option" where
  "ParseUint s =
     (if s = [] \<or> \<not> containsOnly s numbers then None
      else if decimal s < 2 ^ 64 then Some (decimal s) else None)"

definition NewPRVersion :: "string \<Rightarrow> PRVersion option" where
  "NewPRVersion s =
     (if s = [] then None
      else if containsOnly s numbers then
        (if hasLeadingZeroes s then None else map_option PRNum (ParseUint s))
      else if containsOnly s alphanum then Some (PRAlpha s)
      else None)"

definition parseNumber :: "string \<Rightarrow> nat option" where
  "parseNumber p =
     (if \<not> containsOnly p numbers then None
      else if hasLeadingZeroes p then None
      else ParseUint p)"

definition Parse :: "string \<Rightarrow> Version option" where
  "Parse s =
     (if s = [] then None
      else (case SplitN (CHR ''.'') 3 s of
        [p0, p1, p2] \<Rightarrow>
          (case parseNumber p0 of None \<Rightarrow> None | Some major \<Rightarrow>
          (case parseNumber p1 of None \<Rightarrow> None | Some minor \<Rightarrow>
          (let (patchStr1, build) =
                 (case cutAt (CHR ''+'') p2 of None \<Rightarrow> (p2, [])
                  | Some (a, b) \<Rightarrow> (a, Split (CHR ''.'') b));
               (patchStr, prerelease) =
                 (case cutAt (CHR ''-'') patchStr1 of None \<Rightarrow> (patchStr1, [])
                  | Some (a, b) \<Rightarrow> (a, Split (CHR ''.'') b))
           in (case parseNumber patchStr of None \<Rightarrow> None | Some patch \<Rightarrow>
              (case those (map NewPRVersion prerelease) of None \<Rightarrow> None | Some pre \<Rightarrow>
              (if list_ex (\<lambda>str. str = [] \<or> \<not> containsOnly str alphanum) build then None
               else Some \<lparr>Major = major, Minor = minor, Patch = patch,
                          Pre = pre, Build = build\<rparr>))))))
      | _ \<Rightarrow> None))"

definition ParseTolerant :: "string \<Rightarrow> Version option" where
  "ParseTolerant s0 =
     (let s = TrimPrefix (TrimSpace s0) ''v'';
          parts = SplitN (CHR ''.'') 3 s
      in if length parts < 3 then
           (if ContainsAny (last parts) ''+-'' then None
            else Parse (Join (parts @ replicate (3 - length parts) ''0'') ''.''))
         else Parse s)"

section \<open>Results, errors and panics\<close>

text \<open>
  A Go function of the two programs returns a value, returns an error, or panics at
  run time (a nil pointer is dereferenced, a slice expression is out of range). The errors
  are the ones the programs build with \<^verbatim>\<open>fmt.Errorf\<close>, one constructor per format string,
  with the arguments of the format; \<open>External\<close> is an error of a library call returned
  unchanged.
\<close>

datatype error =
    External string
  | StorageClientError string
  | ReleaseNotFound string string string
  | NoReleaseFound
  | CreateError string string
  | CloseError string
  | DownloadError string string string
  | HashMismatch string string string
  | UnzipError string string

datatype panic = NilDereference | SliceBounds nat int

datatype 'a outcome = Ok 'a | Err error | Panic panic

section \<open>The release-listing resolver\<close>

text \<open>
  The structures of \<^verbatim>\<open>go-github\<close> hold pointers: \<^verbatim>\<open>TagName\<close> and \<^verbatim>\<open>BrowserDownloadURL\<close>
  are \<^verbatim>\<open>*string\<close>, \<open>None\<close> is \<^verbatim>\<open>nil\<close>. \<^verbatim>\<open>latestRelease\<close> is a \<^verbatim>\<open>*RepositoryRelease\<close> that
  starts as \<^verbatim>\<open>nil\<close>.
\<close>

record ReleaseAsset =
  BrowserDownloadURL :: "string option"

record RepositoryRelease =
  TagName :: "string option"
  Assets :: "ReleaseAsset list"

record gitHubRelease =
  owner :: string
  repo :: string
  filter_s :: string

text \<open>The first loop (lines 77 to 87): \<open>(latest, latestRelease)\<close> is the loop state.\<close>

fun scanReleases ::
  "(string \<Rightarrow> Version option) \<Rightarrow> Version \<times> RepositoryRelease option \<Rightarrow>
   RepositoryRelease list \<Rightarrow> (Version \<times> RepositoryRelease option) outcome" where
  "scanReleases parse (latest, latestRelease) [] = Ok (latest, latestRelease)"
| "scanReleases parse (latest, latestRelease) (r # rels) =
     (case TagName r of
        None \<Rightarrow> Panic NilDereference
      | Some tag \<Rightarrow>
          (case parse tag of
             None \<Rightarrow> scanReleases parse (latest, latestRelease) rels
           | Some ver \<Rightarrow>
               if GT ver latest then scanReleases parse (ver, Some r) rels
               else scanReleases parse (latest, latestRelease) rels))"

text \<open>The second loop (lines 88 to 95).\<close>

fun scanAssets :: "string \<Rightarrow> ReleaseAsset list \<Rightarrow> string option" where
  "scanAssets flt [] = None"
| "scanAssets flt (a # as) =
     (case BrowserDownloadURL a of
        None \<Rightarrow> scanAssets flt as
      | Some u \<Rightarrow> if Contains u flt then Some u else scanAssets flt as)"

text \<open>
  \<open>listReleases\<close> is the answer of \<^verbatim>\<open>client.Repositories.ListReleases\<close> for an owner and a
  repository: an error or the releases.
\<close>

definition latestGitHubRelease ::
  "(string \<Rightarrow> Version option) \<Rightarrow> (string \<Rightarrow> string \<Rightarrow> string + RepositoryRelease list) \<Rightarrow>
   gitHubRelease \<Rightarrow> string outcome" where
  "latestGitHubRelease parse listReleases g =
     (case listReleases (owner g) (repo g) of
        Inl e \<Rightarrow> Err (External e)
      | Inr rels \<Rightarrow>
          (case scanReleases parse (zeroVersion, None) rels of
             Panic p \<Rightarrow> Panic p
           | Err e \<Rightarrow> Err e
           | Ok (latest, latestRelease) \<Rightarrow>
               (case latestRelease of
                  None \<Rightarrow> Panic NilDereference
                | Some r \<Rightarrow>
                    (case scanAssets (filter_s g) (Assets r) of
                       Some u \<Rightarrow> Ok u
                     | None \<Rightarrow> Err (ReleaseNotFound (owner g) (repo g) (filter_s g))))))"


section \<open>The object-store listing resolver\<close>

text \<open>
  \<^verbatim>\<open>bkt.Objects(ctx, nil)\<close> is an iterator: each \<^verbatim>\<open>it.Next()\<close> gives the next object, or
  \<^verbatim>\<open>iterator.Done\<close>, or another error. Of an object only \<^verbatim>\<open>Name\<close> is used (\<^verbatim>\<open>Bucket\<close> appears
  in a log line).
\<close>

datatype 'a iterator = Next 'a "'a iterator" | Done | Failed string

definition filePrefix :: string where
  "filePrefix = ''selenium-server-standalone-''"

text \<open>
  The loop of lines 165 to 192; \<open>(object, latest)\<close> is the loop state. The slice expression
  \<^verbatim>\<open>o.Name[i+len(filePrefix) : len(o.Name)-4]\<close> panics when its lower bound exceeds its
  upper bound.
\<close>

fun scanObjects ::
  "(string \<Rightarrow> Version option) \<Rightarrow> string \<times> Version \<Rightarrow> string iterator \<Rightarrow>
   (string \<times> Version) outcome" where
  "scanObjects parse (object, latest) Done = Ok (object, latest)"
| "scanObjects parse (object, latest) (Failed e) = Err (External e)"
| "scanObjects parse (object, latest) (Next oName it) =
     (case Index oName filePrefix of
        None \<Rightarrow> scanObjects parse (object, latest) it
      | Some i \<Rightarrow>
          if int (length oName) - 4 < int (i + length filePrefix)
          then Panic (SliceBounds (i + length filePrefix) (int (length oName) - 4))
          else
            (let n = take (length oName - 4 - (i + length filePrefix))
                          (drop (i + length filePrefix) oName)
             in case parse n of
                  None \<Rightarrow> scanObjects parse (object, latest) it
                | Some os \<Rightarrow>
                    if GT os latest then scanObjects parse (oName, os) it
                    else scanObjects parse (object, latest) it))"

text \<open>
  \<open>client\<close> is the answer of \<^verbatim>\<open>storage.NewClient\<close>: an error, or a client, of which the
  function only uses the listing of the bucket \<^verbatim>\<open>selenium-release\<close>.
\<close>

definition latestSeleniumRelease ::
  "(string \<Rightarrow> Version option) \<Rightarrow> string + string iterator \<Rightarrow> string outcome" where
  "latestSeleniumRelease parse client =
     (case client of
        Inl e \<Rightarrow> Err (StorageClientError e)
      | Inr it \<Rightarrow>
          (case scanObjects parse ([], zeroVersion) it of
             Panic p \<Rightarrow> Panic p
           | Err e \<Rightarrow> Err e
           | Ok (object, latest) \<Rightarrow>
               if object = [] then Err NoReleaseFound else Ok object))"

section \<open>Files, the network and external tools\<close>

text \<open>
  The descriptor. The sequential program (\<^verbatim>\<open>vendor/init.go\<close>) declares \<^verbatim>\<open>file\<close> with the
  fields \<^verbatim>\<open>url\<close>, \<^verbatim>\<open>name\<close>, \<^verbatim>\<open>hash\<close> and \<^verbatim>\<open>rename\<close>; the concurrent program adds
  \<^verbatim>\<open>hashType\<close> and \<^verbatim>\<open>browser\<close>. The second record extends the first, so that the functions
  of the sequential program also read a descriptor of the concurrent one.
\<close>

record vendor_file =
  url :: string
  name :: string
  hash :: string
  rename :: "string list"

record "file" = vendor_file +
  hashType :: string
  browser :: bool

text \<open>
  The working directory maps a name to what is there: a regular file with its bytes, or an
  entry that \<^verbatim>\<open>os.Stat\<close> finds but whose contents cannot be read (a directory, a file
  without read permission).
\<close>

datatype node = File string | Opaque

type_synonym filesystem = "string \<rightharpoonup> node"

datatype hashAlg = MD5 | SHA256

text \<open>The log lines of \<^verbatim>\<open>glog\<close>, one constructor per format string.\<close>

datatype message =
    SkippingBrowser string
  | Downloading string string
  | Unzipping string
  | Renaming string string
  | RenameFailed string string string
  | AlreadyDownloaded string

text \<open>
  What a run does to the outside, in order: files created, requests sent, digest
  accumulators made, tools started, paths removed and renamed, lines logged.
\<close>

datatype event =
    Create string
  | HttpGet string
  | NewHash hashAlg
  | Exec string "string list"
  | RemoveAll string
  | Rename string string
  | Info message
  | Warning message

record world =
  fs :: filesystem
  trace :: "event list"

definition emit :: "event \<Rightarrow> world \<Rightarrow> world" where
  "emit e w = w\<lparr>trace := trace w @ [e]\<rparr>"

text \<open>
  The collaborators outside the program. \<open>httpGet\<close> answers a URL with a transport error or
  with the bytes of the body and, possibly, an error that ends the body early
  (\<^verbatim>\<open>io.Copy\<close> fails after these bytes). \<open>createErr\<close> and \<open>closeErr\<close> say whether
  \<^verbatim>\<open>os.Create\<close> and \<^verbatim>\<open>f.Close\<close> fail. \<open>command\<close> runs \<^verbatim>\<open>unzip\<close> or \<^verbatim>\<open>tar\<close> on the working
  directory; \<open>removeAll\<close> and \<open>renameOp\<close> are \<^verbatim>\<open>os.RemoveAll\<close> (whose error the program
  drops) and \<^verbatim>\<open>os.Rename\<close>. \<open>sha256hex\<close> is the SHA-256 digest of a byte string in
  hexadecimal.
\<close>

record env =
  httpGet :: "string \<Rightarrow> string + string \<times> string option"
  createErr :: "string \<Rightarrow> filesystem \<Rightarrow> string option"
  closeErr :: "string \<Rightarrow> string option"
  command :: "string \<Rightarrow> string list \<Rightarrow> filesystem \<Rightarrow> string option \<times> filesystem"
  removeAll :: "string \<Rightarrow> filesystem \<Rightarrow> filesystem"
  renameOp :: "string \<Rightarrow> string \<Rightarrow> filesystem \<Rightarrow> string option \<times> filesystem"
  sha256hex :: "string \<Rightarrow> string"

text \<open>
  The deferred \<^verbatim>\<open>f.Close()\<close> of both \<^verbatim>\<open>downloadFile\<close> functions: its error becomes the
  result only when there is no error yet.
\<close>

definition closeFile :: "env \<Rightarrow> string \<Rightarrow> error option \<Rightarrow> error option" where
  "closeFile en fname err =
     (case closeErr en fname of
        None \<Rightarrow> err
      | Some ce \<Rightarrow> (if err = None then Some (CloseError fname) else err))"

section \<open>The sequential program: vendor/init.go\<close>

definition vendor_downloadFile ::
  "env \<Rightarrow> 'a vendor_file_scheme \<Rightarrow> world \<Rightarrow> error option \<times> world" where
  "vendor_downloadFile en f w =
     (case createErr en (name f) (fs w) of
        Some e \<Rightarrow> (Some (CreateError (name f) e), emit (Create (name f)) w)
      | None \<Rightarrow>
          (let w1 = (emit (Create (name f)) w)\<lparr>fs := (fs w)(name f \<mapsto> File [])\<rparr>
           in case httpGet en (url f) of
                Inl e \<Rightarrow>
                  (closeFile en (name f) (Some (DownloadError (name f) (url f) e)),
                   emit (HttpGet (url f)) w1)
              | Inr (body, copyErr) \<Rightarrow>
                  (let w2 = (emit (NewHash SHA256) (emit (HttpGet (url f)) w1))
                              \<lparr>fs := (fs w)(name f \<mapsto> File body)\<rparr>
                   in case copyErr of
                        Some e \<Rightarrow>
                          (closeFile en (name f)
                             (Some (DownloadError (name f) (url f) e)), w2)
                      | None \<Rightarrow>
                          if sha256hex en body \<noteq> hash f
                          then (closeFile en (name f)
                                  (Some (HashMismatch (name f) (sha256hex en body) (hash f))),
                                w2)
                          else (closeFile en (name f) None, w2))))"

definition fileSameHash :: "env \<Rightarrow> filesystem \<Rightarrow> string \<Rightarrow> string \<Rightarrow> bool" where
  "fileSameHash en dir fileName wantHash =
     (case dir fileName of
        None \<Rightarrow> False
      | Some Opaque \<Rightarrow> False
      | Some (File content) \<Rightarrow> sha256hex en content = wantHash)"

text \<open>
  The three parts of the body of the loop of \<^verbatim>\<open>main\<close> (lines 53 to 59, 60 to 64 and 65 to
  69). \<^verbatim>\<open>glog.Exit\<close> ends the process: the body returns the error and the loop stops.
\<close>

definition vendor_fetch ::
  "env \<Rightarrow> 'a vendor_file_scheme \<Rightarrow> world \<Rightarrow> error option \<times> world" where
  "vendor_fetch en f w =
     (if \<not> fileSameHash en (fs w) (name f) (hash f) then vendor_downloadFile en f w
      else (None, emit (Info (AlreadyDownloaded (name f))) w))"

definition vendor_extract :: "env \<Rightarrow> string \<Rightarrow> world \<Rightarrow> error option \<times> world" where
  "vendor_extract en fname w =
     (if Ext fname = ''.zip'' then
        (case command en ''unzip'' [fname] (fs w) of
           (Some e, dir) \<Rightarrow>
             (Some (UnzipError fname e), (emit (Exec ''unzip'' [fname]) w)\<lparr>fs := dir\<rparr>)
         | (None, dir) \<Rightarrow> (None, (emit (Exec ''unzip'' [fname]) w)\<lparr>fs := dir\<rparr>))
      else (None, w))"

definition vendor_rename :: "env \<Rightarrow> string list \<Rightarrow> world \<Rightarrow> world" where
  "vendor_rename en rn w =
     (case rn of
        [src, dst] \<Rightarrow>
          (case renameOp en src dst (fs w) of
             (Some e, dir) \<Rightarrow>
               emit (Warning (RenameFailed src dst e)) ((emit (Rename src dst) w)\<lparr>fs := dir\<rparr>)
           | (None, dir) \<Rightarrow> (emit (Rename src dst) w)\<lparr>fs := dir\<rparr>)
      | _ \<Rightarrow> w)"

definition vendor_step ::
  "env \<Rightarrow> 'a vendor_file_scheme \<Rightarrow> world \<Rightarrow> error option \<times> world" where
  "vendor_step en f w =
     (case vendor_fetch en f w of
        (Some e, w1) \<Rightarrow> (Some e, w1)
      | (None, w1) \<Rightarrow>
          (case vendor_extract en (name f) w1 of
             (Some e, w2) \<Rightarrow> (Some e, w2)
           | (None, w2) \<Rightarrow> (None, vendor_rename en (rename f) w2)))"

fun vendor_main ::
  "env \<Rightarrow> 'a vendor_file_scheme list \<Rightarrow> world \<Rightarrow> error option \<times> world" where
  "vendor_main en [] w = (None, w)"
| "vendor_main en (f # files) w =
     (case vendor_step en f w of
        (Some e, w1) \<Rightarrow> (Some e, w1)
      | (None, w1) \<Rightarrow> vendor_main en files w1)"

section \<open>The concurrent program\<close>

text \<open>The \<^verbatim>\<open>switch\<close> of lines 317 to 322.\<close>

definition newHash :: "string \<Rightarrow> hashAlg" where
  "newHash ht = (if ToLower ht = ''md5'' then MD5 else SHA256)"

definition downloadFile :: "env \<Rightarrow> file \<Rightarrow> world \<Rightarrow> error option \<times> world" where
  "downloadFile en f w =
     (case createErr en (name f) (fs w) of
        Some e \<Rightarrow> (Some (CreateError (name f) e), emit (Create (name f)) w)
      | None \<Rightarrow>
          (let w1 = (emit (Create (name f)) w)\<lparr>fs := (fs w)(name f \<mapsto> File [])\<rparr>
           in case httpGet en (url f) of
                Inl e \<Rightarrow>
                  (closeFile en (name f) (Some (DownloadError (name f) (url f) e)),
                   emit (HttpGet (url f)) w1)
              | Inr (body, copyErr) \<Rightarrow>
                  (let w2 = (emit (NewHash (newHash (hashType f)))
                               (emit (HttpGet (url f)) w1))
                              \<lparr>fs := (fs w)(name f \<mapsto> File body)\<rparr>
                   in case copyErr of
                        Some e \<Rightarrow>
                          (closeFile en (name f)
                             (Some (DownloadError (name f) (url f) e)), w2)
                      | None \<Rightarrow> (closeFile en (name f) None, w2))))"

text \<open>
  The three parts of \<^verbatim>\<open>handleFile\<close> after the toggle: lines 266 to 271, 273 to 289 and 290
  to 297.
\<close>

definition fetchStep :: "env \<Rightarrow> file \<Rightarrow> world \<Rightarrow> error option \<times> world" where
  "fetchStep en f w =
     (if fs w (name f) = None
      then downloadFile en f (emit (Info (Downloading (name f) (url f))) w)
      else (None, w))"

definition runTool ::
  "env \<Rightarrow> string \<Rightarrow> string list \<Rightarrow> string \<Rightarrow> world \<Rightarrow> error option \<times> world" where
  "runTool en tool args fname w =
     (let w1 = emit (Exec tool args) (emit (Info (Unzipping fname)) w)
      in case command en tool args (fs w) of
           (Some e, dir) \<Rightarrow> (Some (UnzipError fname e), w1\<lparr>fs := dir\<rparr>)
         | (None, dir) \<Rightarrow> (None, w1\<lparr>fs := dir\<rparr>))"

definition extractStep :: "env \<Rightarrow> string \<Rightarrow> world \<Rightarrow> error option \<times> world" where
  "extractStep en fname w =
     (if Ext fname = ''.zip'' then runTool en ''unzip'' [''-o'', fname] fname w
      else if Ext fname = ''.gz'' then runTool en ''tar'' [''-xzf'', fname] fname w
      else if Ext fname = ''.bz2'' then runTool en ''tar'' [''-xjf'', fname] fname w
      else (None, w))"

definition renameStep :: "env \<Rightarrow> string list \<Rightarrow> world \<Rightarrow> world" where
  "renameStep en rn w =
     (case rn of
        [src, dst] \<Rightarrow>
          (let w1 = (emit (RemoveAll dst) (emit (Info (Renaming src dst)) w))
                      \<lparr>fs := removeAll en dst (fs w)\<rparr>
           in case renameOp en src dst (fs w1) of
                (Some e, dir) \<Rightarrow>
                  emit (Warning (RenameFailed src dst e))
                    ((emit (Rename src dst) w1)\<lparr>fs := dir\<rparr>)
              | (None, dir) \<Rightarrow> (emit (Rename src dst) w1)\<lparr>fs := dir\<rparr>)
      | _ \<Rightarrow> w)"

definition handleFile ::
  "env \<Rightarrow> bool \<Rightarrow> file \<Rightarrow> world \<Rightarrow> error option \<times> world" where
  "handleFile en downloadBrowsers f w =
     (if browser f \<and> \<not> downloadBrowsers
      then (None, emit (Info (SkippingBrowser (name f))) w)
      else
        (case fetchStep en f w of
           (Some e, w1) \<Rightarrow> (Some e, w1)
         | (None, w1) \<Rightarrow>
             (case extractStep en (name f) w1 of
                (Some e, w2) \<Rightarrow> (Some e, w2)
              | (None, w2) \<Rightarrow> (None, renameStep en (rename f) w2))))"

text \<open>
  The two kinds of task that \<^verbatim>\<open>main\<close> starts (lines 225 to 239 and 243 to 256). A task ends
  normally, or ends the process with \<^verbatim>\<open>glog.Exitf\<close>, or panics.
\<close>

datatype ending = Finished | Exitf error | Crashed panic

definition resolved :: "string \<Rightarrow> file" where
  "resolved u = \<lparr>url = u, name = Base u, hash = [], rename = [],
                 hashType = [], browser = False\<rparr>"

definition runResolved ::
  "env \<Rightarrow> bool \<Rightarrow> string outcome \<Rightarrow> world \<Rightarrow> ending \<times> world" where
  "runResolved en downloadBrowsers res w =
     (case res of
        Panic p \<Rightarrow> (Crashed p, w)
      | Err e \<Rightarrow> (Exitf e, w)
      | Ok u \<Rightarrow>
          (case handleFile en downloadBrowsers (resolved u) w of
             (Some e, w1) \<Rightarrow> (Exitf e, w1)
           | (None, w1) \<Rightarrow> (Finished, w1)))"

definition gitHubTask ::
  "env \<Rightarrow> bool \<Rightarrow> (string \<Rightarrow> Version option) \<Rightarrow>
   (string \<Rightarrow> string \<Rightarrow> string + RepositoryRelease list) \<Rightarrow> gitHubRelease \<Rightarrow>
   world \<Rightarrow> ending \<times> world" where
  "gitHubTask en downloadBrowsers parse listReleases r w =
     runResolved en downloadBrowsers (latestGitHubRelease parse listReleases r) w"

definition seleniumTask ::
  "env \<Rightarrow> bool \<Rightarrow> (string \<Rightarrow> Version option) \<Rightarrow> string + string iterator \<Rightarrow>
   world \<Rightarrow> ending \<times> world" where
  "seleniumTask en downloadBrowsers parse client w =
     runResolved en downloadBrowsers (latestSeleniumRelease parse client) w"

section \<open>Absolute URLs\<close>

text \<open>
  A URL is absolute when it has a scheme (\<^verbatim>\<open>net/url\<close>, \<^verbatim>\<open>URL.IsAbs\<close>): a letter, then letters,
  digits, \<^verbatim>\<open>+\<close>, \<^verbatim>\<open>-\<close> or \<^verbatim>\<open>.\<close>, then a colon. \<open>schemeEnd first s\<close> reads \<open>s\<close> up to
  the colon; \<open>first\<close> says that no byte has been read yet.
\<close>

definition isLetter :: "char \<Rightarrow> bool" where
  "isLetter c = ((CHR ''a'' \<le> c \<and> c \<le> CHR ''z'') \<or> (CHR ''A'' \<le> c \<and> c \<le> CHR ''Z''))"

definition isSchemeByte :: "char \<Rightarrow> bool" where
  "isSchemeByte c =
     (CHR ''0'' \<le> c \<and> c \<le> CHR ''9'' \<or> c = CHR ''+'' \<or> c = CHR ''-'' \<or> c = CHR ''.'')"

fun schemeEnd :: "bool \<Rightarrow> string \<Rightarrow> bool" where
  "schemeEnd first [] = False"
| "schemeEnd first (c # cs) =
     (if isLetter c then schemeEnd False cs
      else if isSchemeByte c then (\<not> first \<and> schemeEnd False cs)
      else (c = CHR '':'' \<and> \<not> first))"

definition IsAbs :: "string \<Rightarrow> bool" where
  "IsAbs u = schemeEnd True u"

section \<open>Selecting the latest version\<close>

text \<open>
  The version that \<^verbatim>\<open>latestGitHubRelease\<close> reads off a release with a tag, and the version
  that \<^verbatim>\<open>latestSeleniumRelease\<close> reads off an object name: the bytes after the first
  occurrence of the prefix, without the last four bytes of the name.
\<close>

definition tagVersion :: "(string \<Rightarrow> Version option) \<Rightarrow> RepositoryRelease \<Rightarrow> Version option" where
  "tagVersion parse r = (case TagName r of None \<Rightarrow> None | Some tag \<Rightarrow> parse tag)"

definition objectVersion :: "(string \<Rightarrow> Version option) \<Rightarrow> string \<Rightarrow> Version option" where
  "objectVersion parse oName =
     (case Index oName filePrefix of
        None \<Rightarrow> None
      | Some i \<Rightarrow> parse (take (length oName - 4 - (i + length filePrefix))
                            (drop (i + length filePrefix) oName)))"

text \<open>An iterator that yields the given names and then \<^verbatim>\<open>iterator.Done\<close>.\<close>

fun listing :: "'a list \<Rightarrow> 'a iterator" where
  "listing [] = Done"
| "listing (x # xs) = Next x (listing xs)"

text \<open>
  The shape the two selection loops share: \<open>latest\<close> starts as the zero version, and a
  candidate replaces the selection when its version is strictly greater than \<open>latest\<close>.
\<close>

fun selectLatest ::
  "('a \<Rightarrow> Version option) \<Rightarrow> Version \<times> 'a option \<Rightarrow> 'a list \<Rightarrow> Version \<times> 'a option" where
  "selectLatest ver (latest, sel) [] = (latest, sel)"
| "selectLatest ver (latest, sel) (x # xs) =
     (case ver x of
        None \<Rightarrow> selectLatest ver (latest, sel) xs
      | Some v \<Rightarrow>
          if GT v latest then selectLatest ver (v, Some x) xs
          else selectLatest ver (latest, sel) xs)"

text \<open>
  Position \<open>k\<close> holds the first greatest candidate above \<open>bound\<close>: its version is greater
  than \<open>bound\<close>, no candidate's version is greater than it, and it is greater than the
  version of every candidate before it.
\<close>

definition firstGreatest ::
  "('a \<Rightarrow> Version option) \<Rightarrow> Version \<Rightarrow> 'a list \<Rightarrow> nat \<Rightarrow> bool" where
  "firstGreatest ver bound xs k \<longleftrightarrow>
     k < length xs \<and>
     (\<exists>v. ver (xs ! k) = Some v \<and> GT v bound \<and>
          (\<forall>j<length xs. \<forall>v'. ver (xs ! j) = Some v' \<longrightarrow>
             \<not> GT v' v \<and> (j < k \<longrightarrow> GT v v')))"

section \<open>The static descriptors\<close>

text \<open>The variable \<^verbatim>\<open>files\<close> of the sequential program.\<close>

definition vendor_files :: "vendor_file list" where
  "vendor_files =
     [\<lparr>url = ''http://selenium-release.storage.googleapis.com/3.0/selenium-server-standalone-3.0.1.jar'',
       name = ''selenium-server-standalone-3.0.1.jar'',
       hash = ''1537b6d1b259191ed51586378791bc62b38b0cb18ae5ba1433009dc365e9f26b'',
       rename = []\<rparr>,
      \<lparr>url = ''http://selenium-release.storage.googleapis.com/2.53/selenium-server-standalone-2.53.1.jar'',
       name = ''selenium-server-standalone-2.53.1.jar'',
       hash = ''1cce6d3a5ca5b2e32be18ca5107d4f21bddaa9a18700e3b117768f13040b7cf8'',
       rename = []\<rparr>,
      \<lparr>url = ''https://chromedriver.storage.googleapis.com/2.26/chromedriver_linux64.zip'',
       name = ''chromedriver_linux64.zip'',
       hash = ''59e6b1b1656a20334d5731b3c5a7400f92a9c6f5043bb4ab67f1ccf1979ee486'',
       rename = [''chromedriver'', ''chromedriver-linux64-2.26'']\<rparr>]"

text \<open>The variable \<^verbatim>\<open>files\<close> of the concurrent program, before \<^verbatim>\<open>addChrome\<close> appends to it.\<close>

definition files :: "file list" where
  "files =
     [\<lparr>url = ''http://selenium-release.storage.googleapis.com/3.4/selenium-server-standalone-3.4.0.jar'',
       name = ''selenium-server-standalone-3.4.jar'',
       hash = ''21cbbd775678821b6b72c208b8d59664a4c7381b3c50b008b331914d2834ec8d'',
       rename = [], hashType = [], browser = False\<rparr>,
      \<lparr>url = ''https://chromedriver.storage.googleapis.com/2.31/chromedriver_linux64.zip'',
       name = ''chromedriver_2.31_linux64.zip'',
       hash = ''3e372ef676beb3a03aba72089ec0624bb9d3b52597635f907d4c23390fb485a0'',
       rename = [''chromedriver'', ''chromedriver-linux64-2.31''],
       hashType = [], browser = False\<rparr>,
      \<lparr>url = ''https://archive.mozilla.org/pub/firefox/nightly/2017/08/2017-08-21-10-03-50-mozilla-central/firefox-57.0a1.en-US.linux-x86_64.tar.bz2'',
       name = ''firefox-57.0a1.en-US.linux-x86_64.tar.bz2'',
       hash = ''77c57356935f66a5a59b1b2cffeaa53b70204195e6a7b15ee828fd3308561e46'',
       rename = [''firefox'', ''firefox-nightly''],
       hashType = [], browser = True\<rparr>,
      \<lparr>url = ''https://saucelabs.com/downloads/sc-4.4.9-linux.tar.gz'',
       name = ''sauce-connect-4.4.9-linux.tar.gz'',
       hash = ''b1bedccc2690b48d6708ac71f23189c85b0da62c56ee943a1b20d8f17fa8bbde'',
       rename = [''sc-4.4.9-linux'', ''sauce-connect''],
       hashType = [], browser = False\<rparr>]"

definition gitHubReleases :: "gitHubRelease list" where
  "gitHubReleases = [\<lparr>owner = ''mozilla'', repo = ''geckodriver'', filter_s = ''-linux64''\<rparr>]"

section \<open>Reading a trace, and an example environment\<close>

text \<open>The tools started in a trace, in order, with their arguments.\<close>

fun execs :: "event list \<Rightarrow> (string \<times> string list) list" where
  "execs [] = []"
| "execs (Exec tool args # es) = (tool, args) # execs es"
| "execs (e # es) = execs es"

text \<open>The requests sent in a trace, in order.\<close>

fun requests :: "event list \<Rightarrow> string list" where
  "requests [] = []"
| "requests (HttpGet u # es) = u # requests es"
| "requests (e # es) = requests es"

text \<open>
  An environment for evaluating the programs on concrete inputs: the network and the
  digest function are the parameters \<open>net\<close> and \<open>digest\<close>, creating and closing files
  succeed, the tools succeed and leave the working directory as it is, and \<^verbatim>\<open>os.Rename\<close>
  fails when the source is missing.
\<close>

definition exampleEnv ::
  "(string \<Rightarrow> string + string \<times> string option) \<Rightarrow> (string \<Rightarrow> string) \<Rightarrow> env" where
  "exampleEnv net digest =
     \<lparr>httpGet = net,
      createErr = (\<lambda>fname dir. None),
      closeErr = (\<lambda>fname. None),
      command = (\<lambda>tool args dir. (None, dir)),
      removeAll = (\<lambda>p dir. dir(p := None)),
      renameOp = (\<lambda>src dst dir.
         case dir src of
           None \<Rightarrow> (Some ''no such file or directory'', dir)
         | Some x \<Rightarrow> (None, dir(src := None, dst \<mapsto> x))),
      sha256hex = digest\<rparr>"

definition emptyWorld :: world where
  "emptyWorld = \<lparr>fs = Map.empty, trace = []\<rparr>"

text \<open>
  The releases of the example of the spec, with the tags \<^verbatim>\<open>v1.2.0\<close>, \<^verbatim>\<open>v1.10.0\<close>,
  \<^verbatim>\<open>not-a-version\<close> and \<^verbatim>\<open>v1.3.0-rc1\<close>; each release has an asset without download URL,
  one for macOS and one for 64-bit Linux.
\<close>

definition exampleAssets :: "string \<Rightarrow> ReleaseAsset list" where
  "exampleAssets tag =
     [\<lparr>BrowserDownloadURL = None\<rparr>,
      \<lparr>BrowserDownloadURL = Some (''https://github.com/mozilla/geckodriver/releases/download/''
          @ tag @ ''/geckodriver-'' @ tag @ ''-macos.tar.gz'')\<rparr>,
      \<lparr>BrowserDownloadURL = Some (''https://github.com/mozilla/geckodriver/releases/download/''
          @ tag @ ''/geckodriver-'' @ tag @ ''-linux64.tar.gz'')\<rparr>]"

definition exampleReleases :: "RepositoryRelease list" where
  "exampleReleases =
     map (\<lambda>tag. \<lparr>TagName = Some tag, Assets = exampleAssets tag\<rparr>)
       [''v1.2.0'', ''v1.10.0'', ''not-a-version'', ''v1.3.0-rc1'']"



section \<open>Evaluation of the parser\<close>

lemmas semver_eval = ParseTolerant_def Parse_def TrimPrefix_def TrimSpace_def isSpace_def
  ContainsAny_def parseNumber_def containsOnly_def hasLeadingZeroes_def ParseUint_def
  decimal_def numbers_def NewPRVersion_def alphanum_def alphas_def numeral_3_eq_3

section \<open>The release-listing resolver without a candidate\<close>

lemma scanReleases_unparsed:
  "\<forall>r\<in>set rels. \<exists>tag. TagName r = Some tag \<and> parse tag = None \<Longrightarrow>
   scanReleases parse (latest, lr) rels = Ok (latest, lr)"
  by (induction rels) auto

text \<open>
  Claim C1. The spec says that \<^verbatim>\<open>latestGitHubRelease\<close> returns an error, and never panics,
  when the list of releases is empty or no tag parses as a semantic version. The code does
  the opposite: where the listing succeeds and every release carries a tag that does not
  parse (in particular where there is no release), \<^verbatim>\<open>latestRelease\<close> is still \<^verbatim>\<open>nil\<close> after
  the first loop and \<^verbatim>\<open>latestRelease.Assets\<close> on line 88 panics with a nil pointer
  dereference.
\<close>

theorem latestGitHubRelease_no_candidate_panics:
  assumes "listReleases (owner g) (repo g) = Inr rels"
    and "\<forall>r\<in>set rels. \<exists>tag. TagName r = Some tag \<and> parse tag = None"
  shows "latestGitHubRelease parse listReleases g = Panic NilDereference"
  using assms by (simp add: latestGitHubRelease_def scanReleases_unparsed)

theorem latestGitHubRelease_no_candidate_panics_witness:
  "latestGitHubRelease ParseTolerant (\<lambda>ow rp. Inr [])
     \<lparr>owner = ''mozilla'', repo = ''geckodriver'', filter_s = ''-linux64''\<rparr>
     = Panic NilDereference \<and>
   latestGitHubRelease ParseTolerant
     (\<lambda>ow rp. Inr [\<lparr>TagName = Some ''not-a-version'',
                      Assets = [\<lparr>BrowserDownloadURL =
                                   Some ''https://github.com/d-linux64.tar.gz''\<rparr>]\<rparr>])
     \<lparr>owner = ''mozilla'', repo = ''geckodriver'', filter_s = ''-linux64''\<rparr>
     = Panic NilDereference"
proof -
  have p: "ParseTolerant ''not-a-version'' = None"
    by (simp add: semver_eval)
  show ?thesis
    using latestGitHubRelease_no_candidate_panics
            [of "\<lambda>ow rp. Inr []"
                "\<lparr>owner = ''mozilla'', repo = ''geckodriver'', filter_s = ''-linux64''\<rparr>"
                "[]" ParseTolerant]
          latestGitHubRelease_no_candidate_panics
            [of "\<lambda>ow rp. Inr [\<lparr>TagName = Some ''not-a-version'',
                      Assets = [\<lparr>BrowserDownloadURL =
                                   Some ''https://github.com/d-linux64.tar.gz''\<rparr>]\<rparr>]"
                "\<lparr>owner = ''mozilla'', repo = ''geckodriver'', filter_s = ''-linux64''\<rparr>"
                _ ParseTolerant]
          p
    by simp
qed

section \<open>The digest algorithm of the concurrent download worker\<close>

lemma upper_iff:
  "(CHR ''A'' \<le> c \<and> c \<le> CHR ''Z'') \<longleftrightarrow>
   65 \<le> (of_char c :: nat) \<and> (of_char c :: nat) \<le> 90"
  by (simp add: less_eq_char_def)

lemma ToLowerByte_eq_lower:
  assumes "(of_char l :: nat) \<ge> 97" "(of_char l :: nat) \<le> 122"
  shows "ToLowerByte c = l \<longleftrightarrow> c = l \<or> (of_char c :: nat) + 32 = of_char l"
proof (cases "CHR ''A'' \<le> c \<and> c \<le> CHR ''Z''")
  case True
  then have r: "65 \<le> (of_char c :: nat)" "(of_char c :: nat) \<le> 90"
    by (simp_all add: upper_iff)
  then have "c \<noteq> l" using assms by auto
  moreover have "char_of (of_char c + (32::nat)) = l \<longleftrightarrow> (of_char c :: nat) + 32 = of_char l"
    using r by (auto simp add: char_of_eq_iff take_bit_eq_mod)
  ultimately show ?thesis using True by (simp add: ToLowerByte_def)
next
  case False
  then have "\<not> (65 \<le> (of_char c :: nat) \<and> (of_char c :: nat) \<le> 90)"
    by (simp add: upper_iff)
  then have "(of_char c :: nat) + 32 \<noteq> of_char l" using assms by auto
  then show ?thesis using False by (auto simp add: ToLowerByte_def)
qed

lemma ToLowerByte_m: "ToLowerByte c = CHR ''m'' \<longleftrightarrow> c = CHR ''m'' \<or> c = CHR ''M''"
proof -
  have "(of_char c :: nat) + 32 = of_char CHR ''m'' \<longleftrightarrow> c = CHR ''M''"
    by (cases c) auto
  then show ?thesis using ToLowerByte_eq_lower[of "CHR ''m''" c] by simp
qed

lemma ToLowerByte_d: "ToLowerByte c = CHR ''d'' \<longleftrightarrow> c = CHR ''d'' \<or> c = CHR ''D''"
proof -
  have "(of_char c :: nat) + 32 = of_char CHR ''d'' \<longleftrightarrow> c = CHR ''D''"
    by (cases c) auto
  then show ?thesis using ToLowerByte_eq_lower[of "CHR ''d''" c] by simp
qed

lemma ToLowerByte_5: "ToLowerByte c = CHR ''5'' \<longleftrightarrow> c = CHR ''5''"
  by (auto simp add: ToLowerByte_def upper_iff char_of_eq_iff take_bit_eq_mod)

lemma ToLower_md5: "ToLower ht = ''md5'' \<longleftrightarrow> ht \<in> {''md5'', ''Md5'', ''mD5'', ''MD5''}"
  by (auto simp add: ToLower_def map_eq_Cons_conv ToLowerByte_m ToLowerByte_d ToLowerByte_5)

text \<open>
  Claim C10. In the download worker of the concurrent program the digest algorithm is
  chosen by comparing the lower-cased \<^verbatim>\<open>hashType\<close> with \<^verbatim>\<open>md5\<close>: the four spellings of
  \<^verbatim>\<open>md5\<close> select MD5 and every other tag, the empty one included, selects SHA-256. No tag
  is rejected: the result of \<^verbatim>\<open>downloadFile\<close> does not depend on \<^verbatim>\<open>hashType\<close>, and the
  accumulator it makes, once the request has been answered, is the selected one.
\<close>

theorem downloadFile_hash_selection:
  "newHash ht = (if ht \<in> {''md5'', ''Md5'', ''mD5'', ''MD5''} then MD5 else SHA256) \<and>
   fst (downloadFile en (f\<lparr>hashType := ht\<rparr>) w) = fst (downloadFile en f w) \<and>
   trace (snd (downloadFile en f w)) =
     trace w @ Create (name f) #
       (case createErr en (name f) (fs w) of
          Some e \<Rightarrow> []
        | None \<Rightarrow> HttpGet (url f) #
            (case httpGet en (url f) of
               Inl e \<Rightarrow> []
             | Inr r \<Rightarrow> [NewHash (newHash (hashType f))]))"
  by (simp add: newHash_def ToLower_md5 downloadFile_def emit_def Let_def
           split: option.split sum.split prod.split)

section \<open>The browser toggle\<close>

text \<open>
  Claim C9. For a descriptor marked \<^verbatim>\<open>browser\<close>, with the flag \<^verbatim>\<open>download_browsers\<close> off,
  \<^verbatim>\<open>handleFile\<close> returns no error and does nothing but log one line: the working directory
  is unchanged, and no file is created, no request sent, no tool started and nothing
  renamed, whatever the working directory holds.
\<close>

theorem handleFile_browser_toggle_off:
  assumes "browser f" and "\<not> downloadBrowsers"
  shows "handleFile en downloadBrowsers f w =
           (None, w\<lparr>trace := trace w @ [Info (SkippingBrowser (name f))]\<rparr>)"
  using assms by (simp add: handleFile_def emit_def)

theorem handleFile_browser_toggle_off_witness:
  "browser (files ! 2) \<and>
   handleFile (exampleEnv (\<lambda>u. Inl ''unreachable'') (\<lambda>b. [])) False (files ! 2) emptyWorld
     = (None, \<lparr>fs = Map.empty,
               trace = [Info (SkippingBrowser ''firefox-57.0a1.en-US.linux-x86_64.tar.bz2'')]\<rparr>) \<and>
   handleFile (exampleEnv (\<lambda>u. Inl ''unreachable'') (\<lambda>b. [])) False (files ! 2)
     \<lparr>fs = [''firefox-57.0a1.en-US.linux-x86_64.tar.bz2'' \<mapsto> File ''abc''], trace = []\<rparr>
     = (None, \<lparr>fs = [''firefox-57.0a1.en-US.linux-x86_64.tar.bz2'' \<mapsto> File ''abc''],
               trace = [Info (SkippingBrowser ''firefox-57.0a1.en-US.linux-x86_64.tar.bz2'')]\<rparr>)"
  using handleFile_browser_toggle_off
          [of "files ! 2" False "exampleEnv (\<lambda>u. Inl ''unreachable'') (\<lambda>b. [])"]
  by (simp add: emptyWorld_def files_def)

section \<open>Extraction by extension\<close>

lemma extScan_suffix: "\<exists>zs. rev cs @ acc = zs @ extScan cs acc"
  by (induction cs arbitrary: acc) auto

lemma suffix_Ext: "suffix (Ext p) p"
  using extScan_suffix[of "rev p" "[]"] by (auto simp: Ext_def suffix_def)

lemma Ext_zip: "Ext p = ''.zip'' \<longleftrightarrow> suffix ''.zip'' p"
  using suffix_Ext[of p] by (auto simp: suffix_def Ext_def)

lemma Ext_gz: "Ext p = ''.gz'' \<longleftrightarrow> suffix ''.gz'' p"
  using suffix_Ext[of p] by (auto simp: suffix_def Ext_def)

lemma Ext_bz2: "Ext p = ''.bz2'' \<longleftrightarrow> suffix ''.bz2'' p"
  using suffix_Ext[of p] by (auto simp: suffix_def Ext_def)

lemma execs_append: "execs (xs @ ys) = execs xs @ execs ys"
  by (induction xs rule: execs.induct) auto

lemma execs_downloadFile: "execs (trace (snd (downloadFile en f w))) = execs (trace w)"
  by (simp add: downloadFile_def emit_def Let_def execs_append
           split: option.split sum.split prod.split)

lemma execs_fetchStep: "execs (trace (snd (fetchStep en f w))) = execs (trace w)"
  by (simp add: fetchStep_def execs_downloadFile) (simp add: emit_def execs_append)

lemma execs_vendor_downloadFile:
  "execs (trace (snd (vendor_downloadFile en f w))) = execs (trace w)"
  by (simp add: vendor_downloadFile_def emit_def Let_def execs_append
           split: option.split sum.split prod.split)

lemma execs_vendor_fetch: "execs (trace (snd (vendor_fetch en f w))) = execs (trace w)"
  by (simp add: vendor_fetch_def execs_vendor_downloadFile) (simp add: emit_def execs_append)

lemma execs_renameStep: "execs (trace (renameStep en rn w)) = execs (trace w)"
  by (simp add: renameStep_def emit_def Let_def execs_append
           split: list.split option.split prod.split)

lemma execs_vendor_rename: "execs (trace (vendor_rename en rn w)) = execs (trace w)"
  by (simp add: vendor_rename_def emit_def Let_def execs_append
           split: list.split option.split prod.split)

lemma execs_runTool:
  "execs (trace (snd (runTool en tool args fname w))) = execs (trace w) @ [(tool, args)]"
  by (simp add: runTool_def emit_def Let_def execs_append split: option.split prod.split)

lemma execs_extractStep:
  "execs (trace (snd (extractStep en fname w))) = execs (trace w) @
     (if suffix ''.zip'' fname then [(''unzip'', [''-o'', fname])]
      else if suffix ''.gz'' fname then [(''tar'', [''-xzf'', fname])]
      else if suffix ''.bz2'' fname then [(''tar'', [''-xjf'', fname])]
      else [])"
  by (simp add: extractStep_def execs_runTool Ext_zip Ext_gz Ext_bz2)

lemma execs_vendor_extract:
  "execs (trace (snd (vendor_extract en fname w))) = execs (trace w) @
     (if suffix ''.zip'' fname then [(''unzip'', [fname])] else [])"
  by (simp add: vendor_extract_def Ext_zip emit_def execs_append
           split: option.split prod.split)

lemmas run_eval = exampleEnv_def emptyWorld_def files_def vendor_files_def emit_def
  handleFile_def fetchStep_def downloadFile_def closeFile_def extractStep_def runTool_def
  renameStep_def newHash_def ToLower_def Ext_def vendor_step_def vendor_fetch_def
  vendor_downloadFile_def vendor_extract_def vendor_rename_def fileSameHash_def

text \<open>
  Claim C7. The extraction step is chosen from the end of the target name alone. In the
  concurrent program, unless the descriptor is skipped by the toggle or the fetch fails,
  \<^verbatim>\<open>handleFile\<close> starts \<^verbatim>\<open>unzip -o\<close> for a name ending in \<^verbatim>\<open>.zip\<close>, \<^verbatim>\<open>tar -xzf\<close> for a name
  ending in \<^verbatim>\<open>.gz\<close> (so also \<^verbatim>\<open>.tar.gz\<close>), \<^verbatim>\<open>tar -xjf\<close> for a name ending in \<^verbatim>\<open>.bz2\<close>, and
  no tool for any other name (\<^verbatim>\<open>.jar\<close>). The sequential program starts \<^verbatim>\<open>unzip\<close> for a name
  ending in \<^verbatim>\<open>.zip\<close> whose fetch did not fail and no tool otherwise; it only runs on its
  own descriptors, none of which ends in \<^verbatim>\<open>.gz\<close> or \<^verbatim>\<open>.bz2\<close>, so there too every name is
  treated as the mapping says.
\<close>

theorem extraction_by_extension:
  "execs (trace (snd (handleFile en downloadBrowsers f w))) = execs (trace w) @
     (if (browser f \<and> \<not> downloadBrowsers) \<or> fst (fetchStep en f w) \<noteq> None then []
      else if suffix ''.zip'' (name f) then [(''unzip'', [''-o'', name f])]
      else if suffix ''.gz'' (name f) then [(''tar'', [''-xzf'', name f])]
      else if suffix ''.bz2'' (name f) then [(''tar'', [''-xjf'', name f])]
      else []) \<and>
   execs (trace (snd (vendor_step en g w))) = execs (trace w) @
     (if fst (vendor_fetch en g w) = None \<and> suffix ''.zip'' (name g)
      then [(''unzip'', [name g])] else []) \<and>
   list_all (\<lambda>d. \<not> suffix ''.gz'' (name d) \<and> \<not> suffix ''.bz2'' (name d)) vendor_files"
proof (intro conjI)
  show "list_all (\<lambda>d. \<not> suffix ''.gz'' (name d) \<and> \<not> suffix ''.bz2'' (name d)) vendor_files"
    by (simp add: vendor_files_def suffix_to_prefix)
next
  show "execs (trace (snd (handleFile en downloadBrowsers f w))) = execs (trace w) @
     (if (browser f \<and> \<not> downloadBrowsers) \<or> fst (fetchStep en f w) \<noteq> None then []
      else if suffix ''.zip'' (name f) then [(''unzip'', [''-o'', name f])]
      else if suffix ''.gz'' (name f) then [(''tar'', [''-xzf'', name f])]
      else if suffix ''.bz2'' (name f) then [(''tar'', [''-xjf'', name f])]
      else [])"
  proof -
    obtain r1 w1 where f1: "fetchStep en f w = (r1, w1)"
      by (cases "fetchStep en f w")
    obtain r2 w2 where f2: "extractStep en (name f) w1 = (r2, w2)"
      by (cases "extractStep en (name f) w1")
    have e1: "execs (trace w1) = execs (trace w)"
      using execs_fetchStep[of en f w] f1 by simp
    have e2: "execs (trace w2) = execs (trace w1) @
     (if suffix ''.zip'' (name f) then [(''unzip'', [''-o'', name f])]
      else if suffix ''.gz'' (name f) then [(''tar'', [''-xzf'', name f])]
      else if suffix ''.bz2'' (name f) then [(''tar'', [''-xjf'', name f])]
      else [])"
      using execs_extractStep[of en "name f" w1] f2 by simp
    consider (off) "browser f" "\<not> downloadBrowsers" | (nb) "\<not> browser f"
      | (on) "downloadBrowsers"
      by blast
    then show ?thesis
    proof cases
      case off
      then show ?thesis by (simp add: handleFile_def emit_def execs_append)
    next
      case nb
      then show ?thesis using f1 f2 e1 e2
        by (cases r1; cases r2) (simp_all add: handleFile_def execs_renameStep)
    next
      case on
      then show ?thesis using f1 f2 e1 e2
        by (cases r1; cases r2) (simp_all add: handleFile_def execs_renameStep)
    qed
  qed
next
  obtain r1 w1 where f1: "vendor_fetch en g w = (r1, w1)"
    by (cases "vendor_fetch en g w")
  obtain r2 w2 where f2: "vendor_extract en (name g) w1 = (r2, w2)"
    by (cases "vendor_extract en (name g) w1")
  have e1: "execs (trace w1) = execs (trace w)"
    using execs_vendor_fetch[of en g w] f1 by simp
  have e2: "execs (trace w2) = execs (trace w1) @
     (if suffix ''.zip'' (name g) then [(''unzip'', [name g])] else [])"
    using execs_vendor_extract[of en "name g" w1] f2 by simp
  show "execs (trace (snd (vendor_step en g w))) = execs (trace w) @
     (if fst (vendor_fetch en g w) = None \<and> suffix ''.zip'' (name g)
      then [(''unzip'', [name g])] else [])"
    using f1 f2 e1 e2
    by (cases r1; cases r2) (simp_all add: vendor_step_def execs_vendor_rename)
qed

theorem extraction_by_extension_witness:
  "execs (trace (snd (handleFile
       (exampleEnv (\<lambda>u. Inr (''bytes'', None)) (\<lambda>b. hash (vendor_files ! 2))) True
       (files ! 3) emptyWorld)))
     = [(''tar'', [''-xzf'', ''sauce-connect-4.4.9-linux.tar.gz''])] \<and>
   execs (trace (snd (handleFile
       (exampleEnv (\<lambda>u. Inr (''bytes'', None)) (\<lambda>b. hash (vendor_files ! 2))) True
       (files ! 0) emptyWorld)))
     = [] \<and>
   execs (trace (snd (vendor_step
       (exampleEnv (\<lambda>u. Inr (''bytes'', None)) (\<lambda>b. hash (vendor_files ! 2)))
       (vendor_files ! 2) emptyWorld)))
     = [(''unzip'', [''chromedriver_linux64.zip''])]"
  using extraction_by_extension
          [where en = "exampleEnv (\<lambda>u. Inr (''bytes'', None)) (\<lambda>b. hash (vendor_files ! 2))"
             and downloadBrowsers = True and f = "files ! 3" and w = emptyWorld
             and g = "vendor_files ! 2"]
        extraction_by_extension
          [where en = "exampleEnv (\<lambda>u. Inr (''bytes'', None)) (\<lambda>b. hash (vendor_files ! 2))"
             and downloadBrowsers = True and f = "files ! 0" and w = emptyWorld
             and g = "vendor_files ! 2"]
  by (simp add: run_eval suffix_to_prefix)

section \<open>Renaming after extraction\<close>

lemma renameStep_pair:
  "renameStep en [src, dst] w =
     (let dir = removeAll en dst (fs w); r = renameOp en src dst dir
      in \<lparr>fs = snd r,
          trace = trace w @ [Info (Renaming src dst), RemoveAll dst, Rename src dst] @
                  (case fst r of None \<Rightarrow> [] | Some e \<Rightarrow> [Warning (RenameFailed src dst e)])\<rparr>)"
  by (simp add: renameStep_def emit_def Let_def split: prod.split option.split)

lemma vendor_rename_pair:
  "vendor_rename en [src, dst] w =
     (let r = renameOp en src dst (fs w)
      in \<lparr>fs = snd r,
          trace = trace w @ [Rename src dst] @
                  (case fst r of None \<Rightarrow> [] | Some e \<Rightarrow> [Warning (RenameFailed src dst e)])\<rparr>)"
  by (simp add: vendor_rename_def emit_def Let_def split: prod.split option.split)

text \<open>
  Claim C8, which fails as stated: the sequential program renames without removing the
  destination first. With \<^verbatim>\<open>chromedriver-linux64-2.26\<close> already in the working directory
  and \<^verbatim>\<open>unzip\<close> producing \<^verbatim>\<open>chromedriver\<close>, \<^verbatim>\<open>vendor/init.go\<close> goes from the extraction
  straight to \<^verbatim>\<open>os.Rename\<close>.
\<close>

theorem vendor_step_renames_without_removal:
  "vendor_step
     ((exampleEnv (\<lambda>u. Inr (''bytes'', None)) (\<lambda>b. hash (vendor_files ! 2)))
        \<lparr>command := (\<lambda>tool args dir. (None, dir(''chromedriver'' \<mapsto> File ''ELF'')))\<rparr>)
     (vendor_files ! 2)
     \<lparr>fs = [''chromedriver-linux64-2.26'' \<mapsto> Opaque], trace = []\<rparr>
   = (None,
      \<lparr>fs = [''chromedriver_linux64.zip'' \<mapsto> File ''bytes'',
              ''chromedriver-linux64-2.26'' \<mapsto> File ''ELF''],
       trace = [Create ''chromedriver_linux64.zip'',
                HttpGet ''https://chromedriver.storage.googleapis.com/2.26/chromedriver_linux64.zip'',
                NewHash SHA256,
                Exec ''unzip'' [''chromedriver_linux64.zip''],
                Rename ''chromedriver'' ''chromedriver-linux64-2.26'']\<rparr>)"
  by (simp add: run_eval fun_upd_twist)

text \<open>
  Claim C8, amended. In the concurrent program, for a descriptor with a rename pair that
  is not skipped by the toggle and whose fetch and extraction succeed, \<^verbatim>\<open>handleFile\<close>
  logs the renaming, removes the destination path (the outcome of the removal is not
  looked at), then renames the source to the destination in the directory the removal
  left; a failure of the rename adds a warning and nothing else, and \<^verbatim>\<open>handleFile\<close>
  returns no error. The sequential program does the same without the removal: it renames
  in the directory the extraction left, logs a warning when the rename fails, and goes on.
\<close>

theorem rename_after_extraction:
  assumes "rename f = [src, dst]"
  shows "(\<not> (browser f \<and> \<not> downloadBrowsers) \<and> fetchStep en f w = (None, w1) \<and>
          extractStep en (name f) w1 = (None, w2) \<longrightarrow>
            handleFile en downloadBrowsers f w =
              (None,
               \<lparr>fs = snd (renameOp en src dst (removeAll en dst (fs w2))),
                trace = trace w2 @ [Info (Renaming src dst), RemoveAll dst, Rename src dst] @
                  (case fst (renameOp en src dst (removeAll en dst (fs w2))) of
                     None \<Rightarrow> []
                   | Some e \<Rightarrow> [Warning (RenameFailed src dst e)])\<rparr>)) \<and>
         (vendor_fetch en f w = (None, v1) \<and> vendor_extract en (name f) v1 = (None, v2) \<longrightarrow>
            vendor_step en f w =
              (None,
               \<lparr>fs = snd (renameOp en src dst (fs v2)),
                trace = trace v2 @ [Rename src dst] @
                  (case fst (renameOp en src dst (fs v2)) of
                     None \<Rightarrow> []
                   | Some e \<Rightarrow> [Warning (RenameFailed src dst e)])\<rparr>))"
proof (intro conjI impI)
  assume a: "\<not> (browser f \<and> \<not> downloadBrowsers) \<and> fetchStep en f w = (None, w1) \<and>
          extractStep en (name f) w1 = (None, w2)"
  then have "handleFile en downloadBrowsers f w = (None, renameStep en [src, dst] w2)"
    using assms by (auto simp add: handleFile_def)
  then show "handleFile en downloadBrowsers f w =
              (None,
               \<lparr>fs = snd (renameOp en src dst (removeAll en dst (fs w2))),
                trace = trace w2 @ [Info (Renaming src dst), RemoveAll dst, Rename src dst] @
                  (case fst (renameOp en src dst (removeAll en dst (fs w2))) of
                     None \<Rightarrow> []
                   | Some e \<Rightarrow> [Warning (RenameFailed src dst e)])\<rparr>)"
    by (simp add: renameStep_pair Let_def)
next
  assume "vendor_fetch en f w = (None, v1) \<and> vendor_extract en (name f) v1 = (None, v2)"
  then have "vendor_step en f w = (None, vendor_rename en [src, dst] v2)"
    using assms by (simp add: vendor_step_def)
  then show "vendor_step en f w =
              (None,
               \<lparr>fs = snd (renameOp en src dst (fs v2)),
                trace = trace v2 @ [Rename src dst] @
                  (case fst (renameOp en src dst (fs v2)) of
                     None \<Rightarrow> []
                   | Some e \<Rightarrow> [Warning (RenameFailed src dst e)])\<rparr>)"
    by (simp add: vendor_rename_pair Let_def)
qed

theorem rename_after_extraction_witness:
  "rename (files ! 1) = [''chromedriver'', ''chromedriver-linux64-2.31''] \<and>
   handleFile (exampleEnv (\<lambda>u. Inr (''bytes'', None)) (\<lambda>b. hash (files ! 1))) True (files ! 1)
     \<lparr>fs = [''chromedriver-linux64-2.31'' \<mapsto> Opaque], trace = []\<rparr>
   = (None,
      \<lparr>fs = [''chromedriver_2.31_linux64.zip'' \<mapsto> File ''bytes''],
       trace = [Info (Downloading ''chromedriver_2.31_linux64.zip''
                  ''https://chromedriver.storage.googleapis.com/2.31/chromedriver_linux64.zip''),
                Create ''chromedriver_2.31_linux64.zip'',
                HttpGet ''https://chromedriver.storage.googleapis.com/2.31/chromedriver_linux64.zip'',
                NewHash SHA256,
                Info (Unzipping ''chromedriver_2.31_linux64.zip''),
                Exec ''unzip'' [''-o'', ''chromedriver_2.31_linux64.zip''],
                Info (Renaming ''chromedriver'' ''chromedriver-linux64-2.31''),
                RemoveAll ''chromedriver-linux64-2.31'',
                Rename ''chromedriver'' ''chromedriver-linux64-2.31'',
                Warning (RenameFailed ''chromedriver'' ''chromedriver-linux64-2.31''
                           ''no such file or directory'')]\<rparr>) \<and>
   fst (vendor_step (exampleEnv (\<lambda>u. Inr (''bytes'', None)) (\<lambda>b. hash (files ! 1)))
          (files ! 1) \<lparr>fs = [''chromedriver-linux64-2.31'' \<mapsto> Opaque], trace = []\<rparr>)
   = None"
  using rename_after_extraction
          [of "files ! 1" "''chromedriver''" "''chromedriver-linux64-2.31''" True
              "exampleEnv (\<lambda>u. Inr (''bytes'', None)) (\<lambda>b. hash (files ! 1))"
              "\<lparr>fs = [''chromedriver-linux64-2.31'' \<mapsto> Opaque], trace = []\<rparr>"
              "snd (fetchStep (exampleEnv (\<lambda>u. Inr (''bytes'', None)) (\<lambda>b. hash (files ! 1)))
                     (files ! 1)
                     \<lparr>fs = [''chromedriver-linux64-2.31'' \<mapsto> Opaque], trace = []\<rparr>)"
              "snd (extractStep (exampleEnv (\<lambda>u. Inr (''bytes'', None)) (\<lambda>b. hash (files ! 1)))
                     (name (files ! 1))
                     (snd (fetchStep (exampleEnv (\<lambda>u. Inr (''bytes'', None)) (\<lambda>b. hash (files ! 1)))
                            (files ! 1)
                            \<lparr>fs = [''chromedriver-linux64-2.31'' \<mapsto> Opaque], trace = []\<rparr>)))"
              "snd (vendor_fetch (exampleEnv (\<lambda>u. Inr (''bytes'', None)) (\<lambda>b. hash (files ! 1)))
                     (files ! 1)
                     \<lparr>fs = [''chromedriver-linux64-2.31'' \<mapsto> Opaque], trace = []\<rparr>)"
              "snd (vendor_extract (exampleEnv (\<lambda>u. Inr (''bytes'', None)) (\<lambda>b. hash (files ! 1)))
                     (name (files ! 1))
                     (snd (vendor_fetch (exampleEnv (\<lambda>u. Inr (''bytes'', None)) (\<lambda>b. hash (files ! 1)))
                            (files ! 1)
                            \<lparr>fs = [''chromedriver-linux64-2.31'' \<mapsto> Opaque], trace = []\<rparr>)))"]
  by (simp add: run_eval)

section \<open>Digest verification\<close>

text \<open>
  Claim C2. The spec says that a download with an expected digest on its descriptor
  compares the digest of the streamed bytes with it and fails with an integrity error that
  carries both values. The sequential program does; the download worker of the concurrent
  program makes a digest accumulator, streams the body into it and never reads it: for a
  body whose digest differs from the expected one, with nothing else failing, it returns no
  error, where \<^verbatim>\<open>downloadFile\<close> of \<^verbatim>\<open>vendor/init.go\<close> returns the mismatch.
\<close>

theorem downloadFile_never_verifies:
  assumes "createErr en (name f) (fs w) = None"
    and "httpGet en (url f) = Inr (body, None)"
    and "closeErr en (name f) = None"
    and "sha256hex en body \<noteq> hash f"
  shows "fst (downloadFile en f w) = None \<and>
         fs (snd (downloadFile en f w)) (name f) = Some (File body) \<and>
         fst (vendor_downloadFile en f w) =
           Some (HashMismatch (name f) (sha256hex en body) (hash f))"
  using assms by (simp add: downloadFile_def vendor_downloadFile_def closeFile_def emit_def)

theorem downloadFile_never_verifies_witness:
  "downloadFile (exampleEnv (\<lambda>u. Inr (''tampered'', None)) (\<lambda>b. ''0000'')) (files ! 0) emptyWorld
   = (None,
      \<lparr>fs = [''selenium-server-standalone-3.4.jar'' \<mapsto> File ''tampered''],
       trace = [Create ''selenium-server-standalone-3.4.jar'',
                HttpGet ''http://selenium-release.storage.googleapis.com/3.4/selenium-server-standalone-3.4.0.jar'',
                NewHash SHA256]\<rparr>) \<and>
   fst (vendor_downloadFile (exampleEnv (\<lambda>u. Inr (''tampered'', None)) (\<lambda>b. ''0000''))
          (files ! 0) emptyWorld)
   = Some (HashMismatch ''selenium-server-standalone-3.4.jar'' ''0000''
             ''21cbbd775678821b6b72c208b8d59664a4c7381b3c50b008b331914d2834ec8d'')"
  using downloadFile_never_verifies
          [of "exampleEnv (\<lambda>u. Inr (''tampered'', None)) (\<lambda>b. ''0000'')" "files ! 0" emptyWorld
              "''tampered''"]
  by (simp add: run_eval)

text \<open>
  Claim C3. The spec says that the fetch is skipped exactly when the target file exists
  and its digest equals the expected one. The sequential program decides so
  (\<^verbatim>\<open>fileSameHash\<close>); \<^verbatim>\<open>handleFile\<close> of the concurrent program only asks \<^verbatim>\<open>os.Stat\<close>: with a
  file of the target name whose digest differs from the expected one it sends no request,
  creates nothing and logs nothing about the fetch, where \<^verbatim>\<open>vendor/init.go\<close> downloads again.
\<close>

theorem fetchStep_skips_on_wrong_digest:
  assumes "fs w (name f) = Some (File content)"
    and "sha256hex en content \<noteq> hash f"
  shows "fetchStep en f w = (None, w) \<and>
         vendor_fetch en f w = vendor_downloadFile en f w \<and>
         requests (trace (snd (handleFile en downloadBrowsers f w))) = requests (trace w)"
proof -
  have r: "requests (xs @ ys) = requests xs @ requests ys" for xs ys
    by (induction xs rule: requests.induct) auto
  have f: "fetchStep en f w = (None, w)"
    using assms by (simp add: fetchStep_def)
  have x: "requests (trace (snd (extractStep en n w))) = requests (trace w)" for n
    by (simp add: extractStep_def runTool_def emit_def Let_def r split: prod.split option.split)
  have n: "requests (trace (renameStep en rn v)) = requests (trace v)" for rn v
    by (simp add: renameStep_def emit_def Let_def r split: list.split prod.split option.split)
  obtain r2 w2 where e: "extractStep en (name f) w = (r2, w2)"
    by (cases "extractStep en (name f) w")
  have "requests (trace w2) = requests (trace w)"
    using x[of "name f"] e by simp
  then have h: "requests (trace (snd (handleFile en db f w))) = requests (trace w)" for db
  proof -
    assume q: "requests (trace w2) = requests (trace w)"
    consider (off) "browser f" "\<not> db" | (nb) "\<not> browser f" | (on) "db"
      by blast
    then show ?thesis
    proof cases
      case off
      then show ?thesis by (simp add: handleFile_def emit_def r)
    next
      case nb
      then show ?thesis using f e q by (cases r2) (simp_all add: handleFile_def n)
    next
      case on
      then show ?thesis using f e q by (cases r2) (simp_all add: handleFile_def n)
    qed
  qed
  have v: "vendor_fetch en f w = vendor_downloadFile en f w"
    using assms by (simp add: vendor_fetch_def fileSameHash_def)
  show ?thesis using f v h by simp
qed

theorem fetchStep_skips_on_wrong_digest_witness:
  "handleFile (exampleEnv (\<lambda>u. Inr (''bytes'', None)) (\<lambda>b. if b = ''bytes'' then hash (files ! 0) else ''0000''))
     True (files ! 0)
     \<lparr>fs = [''selenium-server-standalone-3.4.jar'' \<mapsto> File ''partial''], trace = []\<rparr>
   = (None, \<lparr>fs = [''selenium-server-standalone-3.4.jar'' \<mapsto> File ''partial''], trace = []\<rparr>) \<and>
   vendor_fetch (exampleEnv (\<lambda>u. Inr (''bytes'', None)) (\<lambda>b. if b = ''bytes'' then hash (files ! 0) else ''0000''))
     (files ! 0)
     \<lparr>fs = [''selenium-server-standalone-3.4.jar'' \<mapsto> File ''partial''], trace = []\<rparr>
   = (None,
      \<lparr>fs = [''selenium-server-standalone-3.4.jar'' \<mapsto> File ''bytes''],
       trace = [Create ''selenium-server-standalone-3.4.jar'',
                HttpGet ''http://selenium-release.storage.googleapis.com/3.4/selenium-server-standalone-3.4.0.jar'',
                NewHash SHA256]\<rparr>)"
  using fetchStep_skips_on_wrong_digest
          [of "\<lparr>fs = [''selenium-server-standalone-3.4.jar'' \<mapsto> File ''partial''], trace = []\<rparr>"
              "files ! 0" "''partial''"
              "exampleEnv (\<lambda>u. Inr (''bytes'', None)) (\<lambda>b. if b = ''bytes'' then hash (files ! 0) else ''0000'')"
              True]
  by (simp add: run_eval)

section \<open>What the resolvers hand to the download worker\<close>

lemma resolution_failure_short_circuits:
  "(latestSeleniumRelease parse client = Err e \<longrightarrow>
      seleniumTask en db parse client w = (Exitf e, w)) \<and>
   (latestGitHubRelease parse listReleases r = Err e \<longrightarrow>
      gitHubTask en db parse listReleases r w = (Exitf e, w))"
  by (simp add: seleniumTask_def gitHubTask_def runResolved_def)

text \<open>
  Claim C4. The spec says that what a resolver yields, and what reaches the download worker,
  is an absolute URL. \<^verbatim>\<open>latestSeleniumRelease\<close> returns, under the result name \<^verbatim>\<open>url\<close>, the
  name of the selected object in the bucket: for the listing of its own comment,
  \<^verbatim>\<open>3.8/selenium-server-standalone-3.8.1.jar\<close>, it yields that name, which has no scheme, and
  the task of \<^verbatim>\<open>main\<close> passes it to \<^verbatim>\<open>handleFile\<close> and so to \<^verbatim>\<open>http.Get\<close>. (With a network
  that answers absolute URLs only, the request fails and the task ends the process.)
\<close>

theorem latestSeleniumRelease_yields_object_name:
  "latestSeleniumRelease ParseTolerant
     (Inr (Next ''3.8/selenium-server-standalone-3.8.1.jar'' Done))
     = Ok ''3.8/selenium-server-standalone-3.8.1.jar'' \<and>
   \<not> IsAbs ''3.8/selenium-server-standalone-3.8.1.jar'' \<and>
   IsAbs ''http://selenium-release.storage.googleapis.com/3.8/selenium-server-standalone-3.8.1.jar'' \<and>
   seleniumTask
     (exampleEnv (\<lambda>u. if IsAbs u then Inr (''bytes'', None)
                       else Inl ''unsupported protocol scheme'') (\<lambda>b. []))
     True ParseTolerant
     (Inr (Next ''3.8/selenium-server-standalone-3.8.1.jar'' Done)) emptyWorld
     = (Exitf (DownloadError ''selenium-server-standalone-3.8.1.jar''
                 ''3.8/selenium-server-standalone-3.8.1.jar'' ''unsupported protocol scheme''),
        \<lparr>fs = [''selenium-server-standalone-3.8.1.jar'' \<mapsto> File []],
         trace = [Info (Downloading ''selenium-server-standalone-3.8.1.jar''
                          ''3.8/selenium-server-standalone-3.8.1.jar''),
                  Create ''selenium-server-standalone-3.8.1.jar'',
                  HttpGet ''3.8/selenium-server-standalone-3.8.1.jar'']\<rparr>)"
  by (simp add: seleniumTask_def runResolved_def resolved_def Base_def
        latestSeleniumRelease_def filePrefix_def semver_eval GT_def Compare_def
        zeroVersion_def run_eval IsAbs_def isLetter_def isSchemeByte_def)

section \<open>The order of versions\<close>

lemma PRCompare_range: "PRCompare x y \<in> {-1, 0, 1}"
  by (cases x; cases y) auto

lemma PRCompare_sym: "PRCompare y x = - PRCompare x y"
  by (cases x; cases y) auto

lemma PRCompare_eq: "PRCompare x y = 0 \<longleftrightarrow> x = y"
  by (cases x; cases y) auto

lemma PRCompare_trans: "PRCompare x y = 1 \<Longrightarrow> PRCompare y z = 1 \<Longrightarrow> PRCompare x z = 1"
  by (cases x; cases y; cases z) (auto split: if_splits)

lemma PRCompare_cases:
  "PRCompare x y = 0 \<or> PRCompare x y = 1 \<or> PRCompare x y = -1"
  using PRCompare_range[of x y] by auto

lemma comparePre_range: "comparePre xs ys \<in> {-1, 0, 1}"
  by (induction xs ys rule: comparePre.induct) auto

lemma comparePre_eq: "comparePre xs ys = 0 \<longleftrightarrow> xs = ys"
  by (induction xs ys rule: comparePre.induct) (auto simp: PRCompare_eq)

lemma PRCompare_gt_sym: "PRCompare x y = 1 \<longleftrightarrow> PRCompare y x = -1"
  using PRCompare_sym[of x y] by auto

lemma comparePre_sym: "comparePre ys xs = - comparePre xs ys"
proof (induction xs ys rule: comparePre.induct)
  case (4 x xs y ys)
  consider "PRCompare x y = 0" | "PRCompare x y = 1" | "PRCompare x y = -1"
    using PRCompare_cases by blast
  then show ?case
  proof cases
    case 1
    then have "PRCompare y x = 0" using PRCompare_sym[of x y] by simp
    with 1 4 show ?thesis by simp
  next
    case 2
    then have "PRCompare y x = -1" using PRCompare_sym[of x y] by simp
    with 2 show ?thesis by simp
  next
    case 3
    then have "PRCompare y x = 1" using PRCompare_sym[of x y] by simp
    with 3 show ?thesis by simp
  qed
qed auto

lemma comparePre_Nil: "comparePre [] zs \<noteq> 1"
  by (cases zs) auto

lemma comparePre_trans:
  "comparePre xs ys = 1 \<Longrightarrow> comparePre ys zs = 1 \<Longrightarrow> comparePre xs zs = 1"
proof (induction xs ys arbitrary: zs rule: comparePre.induct)
  case (4 x xs y ys)
  show ?case
  proof (cases zs)
    case Nil
    then show ?thesis by simp
  next
    case (Cons z zs')
    consider (e) "PRCompare x y = 0" | (g) "PRCompare x y = 1" | (l) "PRCompare x y = -1"
      using PRCompare_cases by blast
    then show ?thesis
    proof cases
      case e
      then have xy: "x = y" by (simp add: PRCompare_eq)
      have t: "comparePre xs ys = 1" using "4.prems"(1) e by simp
      consider (e2) "PRCompare y z = 0" | (g2) "PRCompare y z = 1" | (l2) "PRCompare y z = -1"
        using PRCompare_cases by blast
      then show ?thesis
      proof cases
        case e2
        then have "comparePre ys zs' = 1" using "4.prems"(2) Cons by simp
        then have "comparePre xs zs' = 1" using "4.IH"[OF e t] by simp
        then show ?thesis using e2 xy Cons by simp
      next
        case g2
        then show ?thesis using xy Cons by simp
      next
        case l2
        then show ?thesis using "4.prems"(2) Cons by simp
      qed
    next
      case g
      consider (e2) "PRCompare y z = 0" | (g2) "PRCompare y z = 1" | (l2) "PRCompare y z = -1"
        using PRCompare_cases by blast
      then show ?thesis
      proof cases
        case e2
        then have "y = z" by (simp add: PRCompare_eq)
        with g show ?thesis using Cons by simp
      next
        case g2
        with g have "PRCompare x z = 1" using PRCompare_trans by blast
        then show ?thesis using Cons by simp
      next
        case l2
        then show ?thesis using "4.prems"(2) Cons by simp
      qed
    next
      case l
      then show ?thesis using "4.prems"(1) by simp
    qed
  qed
qed (auto simp: comparePre_Nil)

lemma Compare_range: "Compare v w \<in> {-1, 0, 1}"
  using comparePre_range[of "Pre v" "Pre w"] by (auto simp: Compare_def)

lemma Compare_sym: "Compare w v = - Compare v w"
  using comparePre_sym[of "Pre v" "Pre w"] by (auto simp: Compare_def)

lemma Compare_eq:
  "Compare v w = 0 \<longleftrightarrow>
   Major v = Major w \<and> Minor v = Minor w \<and> Patch v = Patch w \<and> Pre v = Pre w"
  using comparePre_eq[of "Pre v" "Pre w"] by (auto simp: Compare_def)

lemma Compare_cong: "Compare c b = 0 \<Longrightarrow> Compare a c = Compare a b"
  by (simp add: Compare_eq) (simp add: Compare_def)

lemma Compare_trans: "Compare a b = 1 \<Longrightarrow> Compare b c = 1 \<Longrightarrow> Compare a c = 1"
  using comparePre_trans[of "Pre a" "Pre b" "Pre c"]
  by (auto simp: Compare_def split: if_splits)

lemma GT_trans: "GT a b \<Longrightarrow> GT b c \<Longrightarrow> GT a c"
  unfolding GT_def by (rule Compare_trans)

lemma GT_asym: "GT a b \<Longrightarrow> \<not> GT b a"
  unfolding GT_def using Compare_sym[of a b] by simp

lemma GT_irrefl: "\<not> GT a a"
  using GT_asym by blast

lemma GT_negtrans: "GT a b \<Longrightarrow> \<not> GT c b \<Longrightarrow> GT a c"
proof -
  assume ab: "GT a b" and cb: "\<not> GT c b"
  consider "Compare c b = 0" | "Compare c b = -1"
    using Compare_range[of c b] cb by (auto simp: GT_def)
  then show ?thesis
  proof cases
    case 1
    then show ?thesis using ab Compare_cong[of c b a] by (simp add: GT_def)
  next
    case 2
    then have "Compare b c = 1" using Compare_sym[of c b] by simp
    then show ?thesis using ab Compare_trans by (simp add: GT_def)
  qed
qed

section \<open>The selection loop\<close>

lemma firstGreatest_Suc:
  assumes "firstGreatest ver b xs k" and "ver (xs ! k) = Some v" and "GT v b'"
    and "\<forall>v'. ver x = Some v' \<longrightarrow> \<not> GT v' v \<and> GT v v'"
  shows "firstGreatest ver b' (x # xs) (Suc k)"
proof -
  have k: "k < length xs" using assms(1) by (simp add: firstGreatest_def)
  have a: "\<forall>j<length xs. \<forall>v'. ver (xs ! j) = Some v' \<longrightarrow> \<not> GT v' v \<and> (j < k \<longrightarrow> GT v v')"
    using assms(1,2) by (auto simp: firstGreatest_def)
  have "\<not> GT v' v \<and> (j < Suc k \<longrightarrow> GT v v')"
    if "j < length (x # xs)" and "ver ((x # xs) ! j) = Some v'" for j v'
  proof (cases j)
    case 0
    then show ?thesis using that assms(4) by simp
  next
    case (Suc i)
    then show ?thesis using that a by simp
  qed
  then show ?thesis using k assms(2,3) unfolding firstGreatest_def by auto
qed

lemma firstGreatest_0:
  assumes "ver x = Some v" and "GT v b"
    and "\<forall>y\<in>set xs. \<forall>v'. ver y = Some v' \<longrightarrow> \<not> GT v' v"
  shows "firstGreatest ver b (x # xs) 0"
proof -
  have "\<not> GT v' v \<and> (j < 0 \<longrightarrow> GT v v')"
    if "j < length (x # xs)" and "ver ((x # xs) ! j) = Some v'" for j v'
  proof (cases j)
    case 0
    then show ?thesis using that assms(1) GT_irrefl by simp
  next
    case (Suc i)
    then have "xs ! i \<in> set xs" using that by simp
    then show ?thesis using that assms(3) Suc by auto
  qed
  then show ?thesis using assms(1,2) unfolding firstGreatest_def by auto
qed

lemma selectLatest_inv:
  "selectLatest ver (latest, sel) xs = (latest', sel') \<Longrightarrow>
     (latest' = latest \<and> sel' = sel \<and> (\<forall>x\<in>set xs. \<forall>v. ver x = Some v \<longrightarrow> \<not> GT v latest)) \<or>
     (\<exists>k. firstGreatest ver latest xs k \<and> sel' = Some (xs ! k) \<and> ver (xs ! k) = Some latest')"
proof (induction xs arbitrary: latest sel)
  case Nil
  then show ?case by simp
next
  case (Cons x xs)
  show ?case
  proof (cases "ver x")
    case None
    then have s: "selectLatest ver (latest, sel) xs = (latest', sel')" using Cons.prems by simp
    from Cons.IH[OF s] show ?thesis
    proof
      assume "latest' = latest \<and> sel' = sel \<and> (\<forall>x\<in>set xs. \<forall>v. ver x = Some v \<longrightarrow> \<not> GT v latest)"
      then show ?thesis using None by auto
    next
      assume "\<exists>k. firstGreatest ver latest xs k \<and> sel' = Some (xs ! k) \<and> ver (xs ! k) = Some latest'"
      then obtain k where k: "firstGreatest ver latest xs k" "sel' = Some (xs ! k)" "ver (xs ! k) = Some latest'"
        by blast
      have "GT latest' latest" using k(1) k(3) by (auto simp: firstGreatest_def)
      then have "firstGreatest ver latest (x # xs) (Suc k)"
        using firstGreatest_Suc[of ver latest xs k latest' latest x] k None by simp
      then show ?thesis using k by auto
    qed
  next
    case (Some v)
    show ?thesis
    proof (cases "GT v latest")
      case True
      then have s: "selectLatest ver (v, Some x) xs = (latest', sel')" using Cons.prems Some by simp
      from Cons.IH[OF s] show ?thesis
      proof
        assume a: "latest' = v \<and> sel' = Some x \<and> (\<forall>x\<in>set xs. \<forall>v'. ver x = Some v' \<longrightarrow> \<not> GT v' v)"
        have "firstGreatest ver latest (x # xs) 0"
          using firstGreatest_0[of ver x v latest xs] Some True a by simp
        then show ?thesis using a Some by auto
      next
        assume "\<exists>k. firstGreatest ver v xs k \<and> sel' = Some (xs ! k) \<and> ver (xs ! k) = Some latest'"
        then obtain k where k: "firstGreatest ver v xs k" "sel' = Some (xs ! k)" "ver (xs ! k) = Some latest'"
          by blast
        have g: "GT latest' v" using k(1) k(3) unfolding firstGreatest_def by auto
        have "firstGreatest ver latest (x # xs) (Suc k)"
          using firstGreatest_Suc[of ver v xs k latest' latest x] k GT_trans[OF g True] Some g GT_asym[OF g]
          by simp
        then show ?thesis using k by auto
      qed
    next
      case False
      then have s: "selectLatest ver (latest, sel) xs = (latest', sel')" using Cons.prems Some by simp
      from Cons.IH[OF s] show ?thesis
      proof
        assume "latest' = latest \<and> sel' = sel \<and> (\<forall>x\<in>set xs. \<forall>v. ver x = Some v \<longrightarrow> \<not> GT v latest)"
        then show ?thesis using Some False by auto
      next
        assume "\<exists>k. firstGreatest ver latest xs k \<and> sel' = Some (xs ! k) \<and> ver (xs ! k) = Some latest'"
        then obtain k where k: "firstGreatest ver latest xs k" "sel' = Some (xs ! k)" "ver (xs ! k) = Some latest'"
          by blast
        have g: "GT latest' latest" using k(1) k(3) unfolding firstGreatest_def by auto
        have n1: "\<not> GT v latest'" using GT_trans[OF _ g] False by blast
        have n2: "GT latest' v" using GT_negtrans[OF g False] .
        have "firstGreatest ver latest (x # xs) (Suc k)"
          using firstGreatest_Suc[of ver latest xs k latest' latest x] k g Some n1 n2 by simp
        then show ?thesis using k by auto
      qed
    qed
  qed
qed

lemma firstGreatest_unique:
  "firstGreatest ver b xs k \<Longrightarrow> firstGreatest ver b xs k' \<Longrightarrow> k = k'"
  unfolding firstGreatest_def
  by (metis linorder_neqE_nat option.inject)

lemma firstGreatest_exists_above:
  "firstGreatest ver b xs k \<Longrightarrow> \<exists>x\<in>set xs. \<exists>v. ver x = Some v \<and> GT v b"
  unfolding firstGreatest_def by (metis nth_mem)
lemma HasPrefix_prefix: "HasPrefix s p \<longleftrightarrow> prefix p s"
  by (induction s p rule: HasPrefix.induct) auto

lemma Contains_sublist: "Contains s substr \<longleftrightarrow> sublist substr s"
  unfolding Contains_def
  by (induction s) (auto simp: HasPrefix_prefix sublist_Cons_right)

lemma Index_bound: "Index s p = Some i \<Longrightarrow> i + length p \<le> length s"
proof (induction s arbitrary: i)
  case Nil
  then show ?case by (simp split: if_splits)
next
  case (Cons c cs)
  show ?case
  proof (cases "HasPrefix (c # cs) p")
    case True
    then have "i = 0" using Cons.prems by simp
    moreover have "length p \<le> length (c # cs)"
      using True prefix_length_le[of p "c # cs"] by (simp add: HasPrefix_prefix)
    ultimately show ?thesis by simp
  next
    case False
    then obtain j where "Index cs p = Some j" "i = Suc j" using Cons.prems by auto
    then show ?thesis using Cons.IH by fastforce
  qed
qed

lemma scanAssets_find:
  "scanAssets flt as = find (\<lambda>u. Contains u flt) (List.map_filter BrowserDownloadURL as)"
  by (induction as) (auto simp: List.map_filter_simps split: option.split)

lemma scanReleases_selectLatest:
  "\<forall>r\<in>set rels. TagName r \<noteq> None \<Longrightarrow>
   scanReleases parse (latest, lr) rels = Ok (selectLatest (tagVersion parse) (latest, lr) rels)"
  by (induction rels arbitrary: latest lr) (auto simp: tagVersion_def split: option.split)

lemma scanObjects_selectLatest:
  assumes "\<forall>n\<in>set names. \<forall>i. Index n filePrefix = Some i \<longrightarrow>
             i + length filePrefix + 4 \<le> length n"
  shows "scanObjects parse (case sel of None \<Rightarrow> [] | Some n \<Rightarrow> n, latest) (listing names) =
         Ok (case selectLatest (objectVersion parse) (latest, sel) names of
               (l', s') \<Rightarrow> (case s' of None \<Rightarrow> [] | Some n \<Rightarrow> n, l'))"
  using assms
proof (induction names arbitrary: latest sel)
  case Nil
  then show ?case by simp
next
  case (Cons n names)
  have ih: "scanObjects parse (case s of None \<Rightarrow> [] | Some n \<Rightarrow> n, l) (listing names) =
         Ok (case selectLatest (objectVersion parse) (l, s) names of
               (l', s') \<Rightarrow> (case s' of None \<Rightarrow> [] | Some n \<Rightarrow> n, l'))" for l s
    using Cons.IH[of s l] Cons.prems by simp
  show ?case
  proof (cases "Index n filePrefix")
    case None
    then have "objectVersion parse n = None" by (simp add: objectVersion_def)
    then show ?thesis using None ih[of sel latest] by simp
  next
    case (Some i)
    then have b: "\<not> int (length n) - 4 < int (i + length filePrefix)"
      using Cons.prems by fastforce
    have ov: "parse (take (length n - 4 - (i + length filePrefix))
                      (drop (i + length filePrefix) n)) = objectVersion parse n"
      using Some by (simp add: objectVersion_def)
    show ?thesis
    proof (cases "objectVersion parse n")
      case None
      then show ?thesis using Some b ov ih[of sel latest] by simp
    next
      case v: (Some v)
      show ?thesis
      proof (cases "GT v latest")
        case True
        then show ?thesis using Some b v ov ih[of "Some n" v] by simp
      next
        case False
        then show ?thesis using Some b v ov ih[of sel latest] by simp
      qed
    qed
  qed
qed

lemma objectVersion_nonempty: "objectVersion parse n = Some v \<Longrightarrow> n \<noteq> []"
  by (auto simp: objectVersion_def filePrefix_def)

section \<open>The object-store listing resolver selects the first greatest version\<close>

lemma parse_0_0_0: "ParseTolerant ''0.0.0'' = Some zeroVersion"
  by (simp add: semver_eval zeroVersion_def)

lemma parse_2_26:
  "ParseTolerant ''2.26'' = Some \<lparr>Major = 2, Minor = 26, Patch = 0, Pre = [], Build = []\<rparr>"
  by (simp add: semver_eval)

lemma parse_3_0_1:
  "ParseTolerant ''3.0.1'' = Some \<lparr>Major = 3, Minor = 0, Patch = 1, Pre = [], Build = []\<rparr>"
  by (simp add: semver_eval)

lemma parse_x: "ParseTolerant ''x'' = None"
  by (simp add: semver_eval)

lemma parse_3_4_0:
  "ParseTolerant ''3.4.0'' = Some \<lparr>Major = 3, Minor = 4, Patch = 0, Pre = [], Build = []\<rparr>"
  by (simp add: semver_eval)

text \<open>
  Claim C5, which fails as stated: an object whose version parses is not returned when
  that version is not greater than the zero version with which \<^verbatim>\<open>latest\<close> starts. A bucket
  whose only candidate is \<^verbatim>\<open>selenium-server-standalone-0.0.0.jar\<close> has a parsed, greatest
  version, and the resolver fails with "no release found".
\<close>

theorem latestSeleniumRelease_zero_version_not_found:
  "objectVersion ParseTolerant ''0.0/selenium-server-standalone-0.0.0.jar'' = Some zeroVersion \<and>
   latestSeleniumRelease ParseTolerant
     (Inr (listing [''0.0/selenium-server-standalone-0.0.0.jar''])) = Err NoReleaseFound"
  by (simp add: latestSeleniumRelease_def objectVersion_def filePrefix_def parse_0_0_0
        GT_def Compare_def) (simp add: zeroVersion_def)

text \<open>
  Claim C5, amended. For a listing that ends normally and in which every name that
  contains the prefix has at least four more bytes after it, \<^verbatim>\<open>latestSeleniumRelease\<close>
  considers exactly the names that contain \<^verbatim>\<open>selenium-server-standalone-\<close>, reads the version
  between the first occurrence of the prefix and the last four bytes of the name, skips
  the names whose version does not parse, and returns the first listed object whose
  version is greater than 0.0.0 and is exceeded by no candidate's version (it is strictly
  greater than the version of every candidate listed before it). It fails with "no
  release found" exactly when no candidate's version is greater than 0.0.0, in particular
  when none parses. It never panics on such a listing.
\<close>

theorem latestSeleniumRelease_selects:
  assumes "\<forall>n\<in>set names. \<forall>i. Index n filePrefix = Some i \<longrightarrow>
             i + length filePrefix + 4 \<le> length n"
  shows "(case latestSeleniumRelease parse (Inr (listing names)) of
            Ok object \<Rightarrow>
              (\<exists>k. firstGreatest (objectVersion parse) zeroVersion names k \<and>
                   object = names ! k)
          | Err e \<Rightarrow>
              e = NoReleaseFound \<and>
              (\<forall>n\<in>set names. \<forall>v. objectVersion parse n = Some v \<longrightarrow> \<not> GT v zeroVersion)
          | Panic p \<Rightarrow> False)"
proof -
  obtain l s where sl: "selectLatest (objectVersion parse) (zeroVersion, None) names = (l, s)"
    by (cases "selectLatest (objectVersion parse) (zeroVersion, None) names")
  have sc: "scanObjects parse ([], zeroVersion) (listing names) =
            Ok (case s of None \<Rightarrow> [] | Some n \<Rightarrow> n, l)"
    using scanObjects_selectLatest[OF assms, of parse None zeroVersion] sl by simp
  from selectLatest_inv[OF sl] show ?thesis
  proof
    assume "l = zeroVersion \<and> s = None \<and>
            (\<forall>x\<in>set names. \<forall>v. objectVersion parse x = Some v \<longrightarrow> \<not> GT v zeroVersion)"
    then show ?thesis using sc by (simp add: latestSeleniumRelease_def)
  next
    assume "\<exists>k. firstGreatest (objectVersion parse) zeroVersion names k \<and>
                s = Some (names ! k) \<and> objectVersion parse (names ! k) = Some l"
    then obtain k where k: "firstGreatest (objectVersion parse) zeroVersion names k"
        "s = Some (names ! k)" "objectVersion parse (names ! k) = Some l"
      by blast
    have "names ! k \<noteq> []" using objectVersion_nonempty[OF k(3)] .
    then show ?thesis using sc k by (auto simp add: latestSeleniumRelease_def)
  qed
qed

theorem latestSeleniumRelease_selects_witness:
  "latestSeleniumRelease ParseTolerant
     (Inr (listing [''2.26/selenium-server-standalone-2.26.jar'',
                    ''3.0/selenium-server-standalone-3.0.1.jar'',
                    ''3.0/selenium-server-standalone-x.jar'',
                    ''3.4/selenium-server-standalone-3.4.0.jar'']))
     = Ok ''3.4/selenium-server-standalone-3.4.0.jar'' \<and>
   (\<exists>k. firstGreatest (objectVersion ParseTolerant) zeroVersion
          [''2.26/selenium-server-standalone-2.26.jar'',
           ''3.0/selenium-server-standalone-3.0.1.jar'',
           ''3.0/selenium-server-standalone-x.jar'',
           ''3.4/selenium-server-standalone-3.4.0.jar''] k \<and>
        ''3.4/selenium-server-standalone-3.4.0.jar'' =
          [''2.26/selenium-server-standalone-2.26.jar'',
           ''3.0/selenium-server-standalone-3.0.1.jar'',
           ''3.0/selenium-server-standalone-x.jar'',
           ''3.4/selenium-server-standalone-3.4.0.jar''] ! k)"
proof -
  have h: "\<forall>n\<in>set [''2.26/selenium-server-standalone-2.26.jar'',
              ''3.0/selenium-server-standalone-3.0.1.jar'',
              ''3.0/selenium-server-standalone-x.jar'',
              ''3.4/selenium-server-standalone-3.4.0.jar''].
      \<forall>i. Index n filePrefix = Some i \<longrightarrow> i + length filePrefix + 4 \<le> length n"
    by (simp add: filePrefix_def)
  have e: "latestSeleniumRelease ParseTolerant
     (Inr (listing [''2.26/selenium-server-standalone-2.26.jar'',
                    ''3.0/selenium-server-standalone-3.0.1.jar'',
                    ''3.0/selenium-server-standalone-x.jar'',
                    ''3.4/selenium-server-standalone-3.4.0.jar'']))
     = Ok ''3.4/selenium-server-standalone-3.4.0.jar''"
    by (simp add: latestSeleniumRelease_def filePrefix_def parse_2_26 parse_3_0_1 parse_x
          parse_3_4_0 GT_def Compare_def zeroVersion_def)
  have k: "\<exists>k. firstGreatest (objectVersion ParseTolerant) zeroVersion
          [''2.26/selenium-server-standalone-2.26.jar'',
           ''3.0/selenium-server-standalone-3.0.1.jar'',
           ''3.0/selenium-server-standalone-x.jar'',
           ''3.4/selenium-server-standalone-3.4.0.jar''] k \<and>
        ''3.4/selenium-server-standalone-3.4.0.jar'' =
          [''2.26/selenium-server-standalone-2.26.jar'',
           ''3.0/selenium-server-standalone-3.0.1.jar'',
           ''3.0/selenium-server-standalone-x.jar'',
           ''3.4/selenium-server-standalone-3.4.0.jar''] ! k"
    using latestSeleniumRelease_selects[OF h, of ParseTolerant] unfolding e
    by (simp only: outcome.case)
  show ?thesis
    using e k by blast
qed

section \<open>The release-listing resolver selects the first greatest version\<close>

lemma parse_v0_0_0: "ParseTolerant ''v0.0.0'' = Some zeroVersion"
  by (simp add: semver_eval zeroVersion_def)

lemma parse_v1_2_0:
  "ParseTolerant ''v1.2.0'' = Some \<lparr>Major = 1, Minor = 2, Patch = 0, Pre = [], Build = []\<rparr>"
  by (simp add: semver_eval)

lemma parse_v1_10_0:
  "ParseTolerant ''v1.10.0'' = Some \<lparr>Major = 1, Minor = 10, Patch = 0, Pre = [], Build = []\<rparr>"
  by (simp add: semver_eval)

lemma parse_not_a_version: "ParseTolerant ''not-a-version'' = None"
  by (simp add: semver_eval)

lemma parse_v1_3_0_rc1:
  "ParseTolerant ''v1.3.0-rc1'' =
     Some \<lparr>Major = 1, Minor = 3, Patch = 0, Pre = [PRAlpha ''rc1''], Build = []\<rparr>"
  by (simp add: semver_eval)

text \<open>
  Claim C6. The spec says that \<^verbatim>\<open>latestGitHubRelease\<close> selects the release whose tag parses
  to the greatest version and returns the first asset URL of that release that contains
  the filter. With the single release \<^verbatim>\<open>v0.0.0\<close>, whose tag parses (to the greatest, the
  only, version) and whose third asset contains the filter, the code returns no asset and
  panics: \<^verbatim>\<open>latest\<close> starts as the zero version, \<^verbatim>\<open>ver.GT(latest)\<close> is false, and
  \<^verbatim>\<open>latestRelease\<close> is still \<^verbatim>\<open>nil\<close> when line 88 reads \<^verbatim>\<open>latestRelease.Assets\<close>.
\<close>

theorem latestGitHubRelease_zero_version_not_selected:
  "tagVersion ParseTolerant \<lparr>TagName = Some ''v0.0.0'', Assets = exampleAssets ''v0.0.0''\<rparr>
     = Some zeroVersion \<and>
   scanAssets ''-linux64'' (exampleAssets ''v0.0.0'')
     = Some ''https://github.com/mozilla/geckodriver/releases/download/v0.0.0/geckodriver-v0.0.0-linux64.tar.gz'' \<and>
   latestGitHubRelease ParseTolerant
     (\<lambda>ow rp. Inr [\<lparr>TagName = Some ''v0.0.0'', Assets = exampleAssets ''v0.0.0''\<rparr>])
     (gitHubReleases ! 0)
     = Panic NilDereference"
  by (simp add: latestGitHubRelease_def tagVersion_def parse_v0_0_0 GT_def Compare_def
        gitHubReleases_def exampleAssets_def Contains_def)
     (simp add: zeroVersion_def)

text \<open>
  On the other listings the second half of the function is reached with a release
  selected. When the listing succeeds, every release has a tag and some tag parses to a
  version greater than 0.0.0, the resolver selects the first release whose tag parses to
  a version that is greater than 0.0.0 and is exceeded by no other parsed tag (tags that
  do not parse are passed over without error, and of releases with equal versions the
  first is kept); it returns the first download URL among that release's assets that
  contains the filter substring, and fails with the "not found" error when no asset's URL
  contains the filter. The tags \<^verbatim>\<open>v1.2.0\<close>, \<^verbatim>\<open>v1.10.0\<close>, \<^verbatim>\<open>not-a-version\<close> and
  \<^verbatim>\<open>v1.3.0-rc1\<close> give the asset of \<^verbatim>\<open>v1.10.0\<close>.
\<close>

lemma latestGitHubRelease_selects:
  assumes "listReleases (owner g) (repo g) = Inr rels"
    and "\<forall>r\<in>set rels. TagName r \<noteq> None"
    and "\<exists>r\<in>set rels. \<exists>v. tagVersion parse r = Some v \<and> GT v zeroVersion"
  shows "\<exists>k. firstGreatest (tagVersion parse) zeroVersion rels k \<and>
             latestGitHubRelease parse listReleases g =
               (case find (\<lambda>u. sublist (filter_s g) u)
                       (List.map_filter BrowserDownloadURL (Assets (rels ! k))) of
                  Some u \<Rightarrow> Ok u
                | None \<Rightarrow> Err (ReleaseNotFound (owner g) (repo g) (filter_s g)))"
proof -
  obtain l s where sl: "selectLatest (tagVersion parse) (zeroVersion, None) rels = (l, s)"
    by (cases "selectLatest (tagVersion parse) (zeroVersion, None) rels")
  have sc: "scanReleases parse (zeroVersion, None) rels = Ok (l, s)"
    using scanReleases_selectLatest[OF assms(2), of parse zeroVersion None] sl by simp
  from selectLatest_inv[OF sl] show ?thesis
  proof
    assume "l = zeroVersion \<and> s = None \<and>
            (\<forall>x\<in>set rels. \<forall>v. tagVersion parse x = Some v \<longrightarrow> \<not> GT v zeroVersion)"
    then show ?thesis using assms(3) by blast
  next
    assume "\<exists>k. firstGreatest (tagVersion parse) zeroVersion rels k \<and>
                s = Some (rels ! k) \<and> tagVersion parse (rels ! k) = Some l"
    then obtain k where k: "firstGreatest (tagVersion parse) zeroVersion rels k"
        "s = Some (rels ! k)"
      by blast
    have "latestGitHubRelease parse listReleases g =
               (case find (\<lambda>u. sublist (filter_s g) u)
                       (List.map_filter BrowserDownloadURL (Assets (rels ! k))) of
                  Some u \<Rightarrow> Ok u
                | None \<Rightarrow> Err (ReleaseNotFound (owner g) (repo g) (filter_s g)))"
      using assms(1) sc k(2)
      by (simp add: latestGitHubRelease_def scanAssets_find Contains_sublist)
    then show ?thesis using k(1) by blast
  qed
qed

lemma latestGitHubRelease_selects_example:
  "(\<exists>r\<in>set exampleReleases. \<exists>v. tagVersion ParseTolerant r = Some v \<and> GT v zeroVersion) \<and>
   latestGitHubRelease ParseTolerant (\<lambda>ow rp. Inr exampleReleases) (gitHubReleases ! 0)
     = Ok ''https://github.com/mozilla/geckodriver/releases/download/v1.10.0/geckodriver-v1.10.0-linux64.tar.gz'' \<and>
   (\<exists>k. firstGreatest (tagVersion ParseTolerant) zeroVersion exampleReleases k \<and>
        Ok ''https://github.com/mozilla/geckodriver/releases/download/v1.10.0/geckodriver-v1.10.0-linux64.tar.gz'' =
          (case find (\<lambda>u. sublist (filter_s (gitHubReleases ! 0)) u)
                  (List.map_filter BrowserDownloadURL (Assets (exampleReleases ! k))) of
             Some u \<Rightarrow> Ok u
           | None \<Rightarrow> Err (ReleaseNotFound (owner (gitHubReleases ! 0))
                            (repo (gitHubReleases ! 0)) (filter_s (gitHubReleases ! 0)))))"
proof -
  have h2: "\<forall>r\<in>set exampleReleases. TagName r \<noteq> None"
    by (simp add: exampleReleases_def)
  have h3: "\<exists>r\<in>set exampleReleases. \<exists>v. tagVersion ParseTolerant r = Some v \<and> GT v zeroVersion"
    by (simp add: exampleReleases_def tagVersion_def parse_v1_2_0 GT_def Compare_def
          zeroVersion_def)
  have e: "latestGitHubRelease ParseTolerant (\<lambda>ow rp. Inr exampleReleases) (gitHubReleases ! 0)
     = Ok ''https://github.com/mozilla/geckodriver/releases/download/v1.10.0/geckodriver-v1.10.0-linux64.tar.gz''"
    by (simp add: latestGitHubRelease_def exampleReleases_def exampleAssets_def
          gitHubReleases_def Contains_def parse_v1_2_0 parse_v1_10_0 parse_not_a_version
          parse_v1_3_0_rc1 GT_def Compare_def zeroVersion_def)
  have k: "\<exists>k. firstGreatest (tagVersion ParseTolerant) zeroVersion exampleReleases k \<and>
        Ok ''https://github.com/mozilla/geckodriver/releases/download/v1.10.0/geckodriver-v1.10.0-linux64.tar.gz'' =
          (case find (\<lambda>u. sublist (filter_s (gitHubReleases ! 0)) u)
                  (List.map_filter BrowserDownloadURL (Assets (exampleReleases ! k))) of
             Some u \<Rightarrow> Ok u
           | None \<Rightarrow> Err (ReleaseNotFound (owner (gitHubReleases ! 0))
                            (repo (gitHubReleases ! 0)) (filter_s (gitHubReleases ! 0))))"
    using latestGitHubRelease_selects
            [where g = "gitHubReleases ! 0" and listReleases = "\<lambda>ow rp. Inr exampleReleases"
               and rels = exampleReleases and parse = ParseTolerant, OF refl h2 h3]
    unfolding e .
  show ?thesis
    using h3 e k by blast
qed

end
